theory Spec2Isabelle
  imports Complex_Main "HOL-Library.Word" "HOL-Library.Log_Nat"
begin

section \<open>Data model of the device manager\<close>

text \<open>
  The development follows \<^verbatim>\<open>src/app/DeviceManager.cpp\<close> and the declarations of
  \<^verbatim>\<open>DeviceManager.h\<close>. A \<^verbatim>\<open>uint32_t\<close> is a 32-bit word; an \<^verbatim>\<open>int\<close> that is only
  compared for equality with a \<^verbatim>\<open>uint32_t\<close> (the window size) is kept as its 32-bit
  pattern. The frame time accumulators, whose arithmetic decides when the average is
  published, are IEEE 754 binary64 values with their rounding (type \<open>double\<close> below); a
  \<^verbatim>\<open>double\<close> or \<^verbatim>\<open>float\<close> that the manager only stores or hands on (time stamps, display
  scale, pointer position) is given by its real value, and the conversion between the two
  is not modelled. The frame counter \<^verbatim>\<open>m_NumberOfAccumulatedFrames\<close> is a signed 32-bit
  \<^verbatim>\<open>int\<close>: it holds an integer of that range, and incrementing \<^verbatim>\<open>INT_MAX\<close> is undefined.
  Pointers to render passes are values of a type \<open>'p\<close> compared by identity and are
  never null; the native window and the textures are handles. Render passes and lifecycle
  hooks are called, and do not call back into the manager.
\<close>

type_synonym uint32_t = "32 word"
type_synonym ANativeWindow = nat
type_synonym ITexture = nat

datatype GraphicsAPI = D3D11 | D3D12 | VULKAN

subsection \<open>Double precision arithmetic\<close>

text \<open>
  A \<^verbatim>\<open>double\<close> is a finite binary64 value, given as the real number it stands for, an
  infinity or a NaN. The two zeros are one value here: they compare equal, and the code
  never divides by a \<^verbatim>\<open>double\<close> that could be the negative one.
\<close>

datatype double = Finite real | PlusInfinity | MinusInfinity | NotANumber

definition pow2 :: "int \<Rightarrow> real" where
  "pow2 e = (if 0 \<le> e then 2 ^ nat e else 1 / 2 ^ nat (- e))"

text \<open>The exponent of a positive real: the largest \<open>e\<close> with \<open>pow2 e \<le> a\<close>.\<close>

definition ilog2 :: "real \<Rightarrow> int" where
  "ilog2 a = (if 1 \<le> a then bitlen \<lfloor>a\<rfloor> - 1 else - bitlen (\<lceil>1 / a\<rceil> - 1))"

definition round_half_even :: "real \<Rightarrow> int" where
  "round_half_even q =
     (let f = \<lfloor>q\<rfloor>; d = q - of_int f
      in if d < 1 / 2 then f else if 1 / 2 < d then f + 1 else if even f then f else f + 1)"

text \<open>
  Rounding to the nearest binary64 value, ties to the even significand: 53 significant
  bits, the least exponent \<open>-1022\<close> (below it the spacing stays \<open>pow2 (-1074)\<close>), and an
  infinity where the rounded value reaches \<open>pow2 1024\<close>.
\<close>

definition round_to_double :: "real \<Rightarrow> double" where
  "round_to_double x =
     (if x = 0 then Finite 0
      else
        let a = \<bar>x\<bar>;
            e = max (ilog2 a) (- 1022);
            ulp = pow2 (e - 52);
            r = of_int (round_half_even (a / ulp)) * ulp
        in if pow2 1024 \<le> r then (if 0 < x then PlusInfinity else MinusInfinity)
           else Finite (if 0 < x then r else - r))"

text \<open>Addition: the exact sum, rounded.\<close>

fun fadd :: "double \<Rightarrow> double \<Rightarrow> double" where
  "fadd (Finite a) (Finite b) = round_to_double (a + b)"
| "fadd NotANumber _ = NotANumber"
| "fadd _ NotANumber = NotANumber"
| "fadd PlusInfinity MinusInfinity = NotANumber"
| "fadd MinusInfinity PlusInfinity = NotANumber"
| "fadd PlusInfinity _ = PlusInfinity"
| "fadd _ PlusInfinity = PlusInfinity"
| "fadd MinusInfinity _ = MinusInfinity"
| "fadd _ MinusInfinity = MinusInfinity"

text \<open>The comparison \<^verbatim>\<open>a > b\<close>: false whenever a NaN is compared.\<close>

fun fgt :: "double \<Rightarrow> double \<Rightarrow> bool" where
  "fgt (Finite a) (Finite b) = (b < a)"
| "fgt NotANumber _ = False"
| "fgt _ NotANumber = False"
| "fgt PlusInfinity PlusInfinity = False"
| "fgt PlusInfinity _ = True"
| "fgt _ PlusInfinity = False"
| "fgt MinusInfinity _ = False"
| "fgt _ MinusInfinity = True"

text \<open>
  The quotient \<^verbatim>\<open>a / double(n)\<close> for an \<^verbatim>\<open>int\<close> \<open>n\<close>: the conversion of a 32-bit integer is
  exact (and gives the positive zero for 0), the exact quotient is rounded.
\<close>

fun fdiv_int :: "double \<Rightarrow> int \<Rightarrow> double" where
  "fdiv_int (Finite a) n =
     (if n = 0 then (if a = 0 then NotANumber else if 0 < a then PlusInfinity else MinusInfinity)
      else round_to_double (a / of_int n))"
| "fdiv_int NotANumber n = NotANumber"
| "fdiv_int PlusInfinity n = (if 0 \<le> n then PlusInfinity else MinusInfinity)"
| "fdiv_int MinusInfinity n = (if 0 \<le> n then MinusInfinity else PlusInfinity)"

definition INT_MAX :: int where
  "INT_MAX = 2147483647"

subsection \<open>The manager\<close>

text \<open>The fields of \<^verbatim>\<open>DeviceCreationParameters\<close> that the modelled functions read or write.\<close>

record DeviceCreationParameters =
  headlessDevice :: bool
  backBufferWidth :: uint32_t
  backBufferHeight :: uint32_t
  swapChainBufferCount :: uint32_t
  swapChainSampleCount :: uint32_t
  vsyncEnabled :: bool
  supportExplicitDisplayScaling :: bool

text \<open>\<^verbatim>\<open>PipelineCallbacks\<close>: a \<^verbatim>\<open>std::function\<close> is either empty or registered.\<close>

record PipelineCallbacks =
  beforeFrame :: bool
  beforeAnimate :: bool
  afterAnimate :: bool
  beforeRender :: bool
  afterRender :: bool
  beforePresent :: bool
  afterPresent :: bool

text \<open>
  A framebuffer is described by its single colour attachment
  (\<^verbatim>\<open>FramebufferDesc().addColorAttachment(GetBackBuffer(index))\<close>); a
  \<^verbatim>\<open>FramebufferHandle\<close> may be null (\<open>None\<close>).
\<close>

datatype IFramebuffer = Framebuffer (colorAttachment: ITexture)

type_synonym FramebufferHandle = "IFramebuffer option"

record ('p, 'b) DeviceManager =
  m_SkipRenderOnFirstFrame :: bool
  m_windowVisible :: bool
  m_windowIsInFocus :: bool
  m_DeviceParams :: DeviceCreationParameters
  m_NativeWindow :: "ANativeWindow option"
  m_EnableRenderDuringWindowMovement :: bool
  m_vRenderPasses :: "'p list"
  m_PreviousFrameTimestamp :: real
  m_DPIScaleFactorX :: real
  m_DPIScaleFactorY :: real
  m_PrevDPIScaleFactorX :: real
  m_PrevDPIScaleFactorY :: real
  m_RequestedVSync :: bool
  m_InstanceCreated :: bool
  m_AverageFrameTime :: double
  m_AverageTimeUpdateInterval :: double
  m_FrameTimeSum :: double
  m_NumberOfAccumulatedFrames :: int
  m_FrameIndex :: uint32_t
  m_SwapChainFramebuffers :: "FramebufferHandle list"
  m_callbacks :: PipelineCallbacks
  backend :: 'b

text \<open>
  The pure virtual, device-specific methods of \<^verbatim>\<open>DeviceManager\<close> are parameters of the
  model. They act on the state \<open>'b\<close> of the derived class and may read the device
  parameters.
\<close>

record 'b Backend =
  CreateInstanceInternal :: "DeviceCreationParameters \<Rightarrow> 'b \<Rightarrow> bool \<times> 'b"
  CreateDevice :: "DeviceCreationParameters \<Rightarrow> 'b \<Rightarrow> bool \<times> 'b"
  CreateSwapChain :: "DeviceCreationParameters \<Rightarrow> 'b \<Rightarrow> bool \<times> 'b"
  DestroyDeviceAndSwapChain :: "'b \<Rightarrow> 'b"
  ResizeSwapChain :: "DeviceCreationParameters \<Rightarrow> 'b \<Rightarrow> 'b"
  BeginFrame :: "DeviceCreationParameters \<Rightarrow> 'b \<Rightarrow> bool \<times> 'b"
  Present :: "DeviceCreationParameters \<Rightarrow> 'b \<Rightarrow> bool \<times> 'b"
  GetGraphicsAPI :: "'b \<Rightarrow> GraphicsAPI"
  GetBackBuffer :: "'b \<Rightarrow> uint32_t \<Rightarrow> ITexture"
  GetCurrentBackBufferIndex :: "'b \<Rightarrow> uint32_t"
  GetBackBufferCount :: "'b \<Rightarrow> uint32_t"

text \<open>
  The virtual methods of \<^verbatim>\<open>IRenderPass\<close> that return a value. The methods returning
  \<^verbatim>\<open>void\<close> are observed through the events below.
\<close>

record 'p IRenderPass =
  pass_ShouldRenderUnfocused :: "'p \<Rightarrow> bool"
  pass_KeyboardUpdate :: "'p \<Rightarrow> int \<Rightarrow> int \<Rightarrow> int \<Rightarrow> int \<Rightarrow> bool"
  pass_KeyboardCharInput :: "'p \<Rightarrow> nat \<Rightarrow> int \<Rightarrow> bool"
  pass_MousePosUpdate :: "'p \<Rightarrow> real \<Rightarrow> real \<Rightarrow> bool"
  pass_MouseButtonUpdate :: "'p \<Rightarrow> int \<Rightarrow> int \<Rightarrow> int \<Rightarrow> bool"
  pass_MouseScrollUpdate :: "'p \<Rightarrow> real \<Rightarrow> real \<Rightarrow> bool"

datatype hook =
  BeforeFrame | BeforeAnimate | AfterAnimate | BeforeRender | AfterRender
  | BeforePresent | AfterPresent

text \<open>
  Every call that leaves the manager (into a render pass, a lifecycle hook, the backend
  or the device) is an event; a function of the manager returns the events in the order
  in which it makes the calls.
\<close>

datatype 'p event =
    EvBackBufferResizing 'p
  | EvBackBufferResized 'p uint32_t uint32_t uint32_t
  | EvDisplayScaleChanged 'p real real
  | EvAnimate 'p real
  | EvSetLatewarpOptions 'p
  | EvRender 'p FramebufferHandle
  | EvKeyboardUpdate 'p int int int int
  | EvKeyboardCharInput 'p nat int
  | EvMousePosUpdate 'p real real
  | EvMouseButtonUpdate 'p int int int
  | EvMouseScrollUpdate 'p real real
  | EvHook hook uint32_t
  | EvResizeSwapChain uint32_t uint32_t
  | EvCreateFramebuffer ITexture
  | EvBeginFrame bool
  | EvPresent bool
  | EvRunGarbageCollection
  | EvWaitForIdle

text \<open>
  Undefined behaviour is a result of its own: reading a \<^verbatim>\<open>std::vector\<close> with
  \<^verbatim>\<open>operator[]\<close> outside its size, and the overflow of a signed integer.
\<close>

datatype error = OutOfRange | SignedOverflow

definition vector_at :: "'a list \<Rightarrow> nat \<Rightarrow> error + 'a" where
  "vector_at xs i = (if i < length xs then Inr (xs ! i) else Inl OutOfRange)"

text \<open>The default member initialisers of the header.\<close>

definition DeviceCreationParameters_default :: DeviceCreationParameters where
  "DeviceCreationParameters_default =
     \<lparr> headlessDevice = False, backBufferWidth = 1280, backBufferHeight = 720,
       swapChainBufferCount = 3, swapChainSampleCount = 1, vsyncEnabled = False,
       supportExplicitDisplayScaling = False \<rparr>"

definition PipelineCallbacks_default :: PipelineCallbacks where
  "PipelineCallbacks_default =
     \<lparr> beforeFrame = False, beforeAnimate = False, afterAnimate = False,
       beforeRender = False, afterRender = False, beforePresent = False,
       afterPresent = False \<rparr>"

definition DeviceManager_new :: "'b \<Rightarrow> ('p, 'b) DeviceManager" where
  "DeviceManager_new b =
     \<lparr> m_SkipRenderOnFirstFrame = False, m_windowVisible = False, m_windowIsInFocus = True,
       m_DeviceParams = DeviceCreationParameters_default, m_NativeWindow = None,
       m_EnableRenderDuringWindowMovement = False, m_vRenderPasses = [],
       m_PreviousFrameTimestamp = 0, m_DPIScaleFactorX = 1, m_DPIScaleFactorY = 1,
       m_PrevDPIScaleFactorX = 0, m_PrevDPIScaleFactorY = 0, m_RequestedVSync = False,
       m_InstanceCreated = False, m_AverageFrameTime = Finite 0,
       m_AverageTimeUpdateInterval = Finite (1 / 2),
       m_FrameTimeSum = Finite 0, m_NumberOfAccumulatedFrames = 0, m_FrameIndex = 0,
       m_SwapChainFramebuffers = [], m_callbacks = PipelineCallbacks_default, backend = b \<rparr>"

section \<open>The render-pass list\<close>

text \<open>
  \<^verbatim>\<open>std::list::remove\<close> erases every element equal to its argument. A newly added pass
  is told the current back buffer size at once.
\<close>

definition AddRenderPassToFront ::
  "('p, 'b) DeviceManager \<Rightarrow> 'p \<Rightarrow> 'p event list \<times> ('p, 'b) DeviceManager" where
  "AddRenderPassToFront s pRenderPass =
     ([EvBackBufferResizing pRenderPass,
       EvBackBufferResized pRenderPass (backBufferWidth (m_DeviceParams s))
         (backBufferHeight (m_DeviceParams s)) (swapChainSampleCount (m_DeviceParams s))],
      s\<lparr>m_vRenderPasses := pRenderPass # removeAll pRenderPass (m_vRenderPasses s)\<rparr>)"

definition AddRenderPassToBack ::
  "('p, 'b) DeviceManager \<Rightarrow> 'p \<Rightarrow> 'p event list \<times> ('p, 'b) DeviceManager" where
  "AddRenderPassToBack s pRenderPass =
     ([EvBackBufferResizing pRenderPass,
       EvBackBufferResized pRenderPass (backBufferWidth (m_DeviceParams s))
         (backBufferHeight (m_DeviceParams s)) (swapChainSampleCount (m_DeviceParams s))],
      s\<lparr>m_vRenderPasses := removeAll pRenderPass (m_vRenderPasses s) @ [pRenderPass]\<rparr>)"

definition RemoveRenderPass :: "('p, 'b) DeviceManager \<Rightarrow> 'p \<Rightarrow> ('p, 'b) DeviceManager" where
  "RemoveRenderPass s pRenderPass =
     s\<lparr>m_vRenderPasses := removeAll pRenderPass (m_vRenderPasses s)\<rparr>"

text \<open>A sequence of calls made by the application.\<close>

datatype 'p pass_op = ToFront 'p | ToBack 'p | Remove 'p

fun apply_pass_op :: "('p, 'b) DeviceManager \<Rightarrow> 'p pass_op \<Rightarrow> ('p, 'b) DeviceManager" where
  "apply_pass_op s (ToFront p) = snd (AddRenderPassToFront s p)"
| "apply_pass_op s (ToBack p) = snd (AddRenderPassToBack s p)"
| "apply_pass_op s (Remove p) = RemoveRenderPass s p"

definition apply_pass_ops ::
  "('p, 'b) DeviceManager \<Rightarrow> 'p pass_op list \<Rightarrow> ('p, 'b) DeviceManager" where
  "apply_pass_ops s ops = foldl apply_pass_op s ops"

section \<open>Input dispatch\<close>

text \<open>
  Each of the five input functions walks the list from \<^verbatim>\<open>crbegin()\<close> to \<^verbatim>\<open>crend()\<close>
  and breaks after the first handler that returns true. \<open>dispatch_loop\<close> is that loop
  over the passes in the order of the walk; it returns the passes whose handler ran.
\<close>

fun dispatch_loop :: "('p \<Rightarrow> bool) \<Rightarrow> 'p list \<Rightarrow> 'p list" where
  "dispatch_loop h [] = []"
| "dispatch_loop h (p # ps) = (if h p then [p] else p # dispatch_loop h ps)"

definition KeyboardUpdate ::
  "'p IRenderPass \<Rightarrow> ('p, 'b) DeviceManager \<Rightarrow> int \<Rightarrow> int \<Rightarrow> int \<Rightarrow> int \<Rightarrow> 'p event list" where
  "KeyboardUpdate rp s key scancode action mods =
     map (\<lambda>p. EvKeyboardUpdate p key scancode action mods)
       (dispatch_loop (\<lambda>p. pass_KeyboardUpdate rp p key scancode action mods)
          (rev (m_vRenderPasses s)))"

definition KeyboardCharInput ::
  "'p IRenderPass \<Rightarrow> ('p, 'b) DeviceManager \<Rightarrow> nat \<Rightarrow> int \<Rightarrow> 'p event list" where
  "KeyboardCharInput rp s unicode mods =
     map (\<lambda>p. EvKeyboardCharInput p unicode mods)
       (dispatch_loop (\<lambda>p. pass_KeyboardCharInput rp p unicode mods)
          (rev (m_vRenderPasses s)))"

text \<open>
  The pointer position is divided by the display scale unless the application scales
  explicitly. (For a scale of zero the quotient here is 0, in the source an infinity or
  NaN; the order of the calls does not depend on it.)
\<close>

definition MousePosUpdate ::
  "'p IRenderPass \<Rightarrow> ('p, 'b) DeviceManager \<Rightarrow> real \<Rightarrow> real \<Rightarrow> 'p event list" where
  "MousePosUpdate rp s xpos ypos =
     (let x = (if supportExplicitDisplayScaling (m_DeviceParams s) then xpos
               else xpos / m_DPIScaleFactorX s);
          y = (if supportExplicitDisplayScaling (m_DeviceParams s) then ypos
               else ypos / m_DPIScaleFactorY s)
      in map (\<lambda>p. EvMousePosUpdate p x y)
           (dispatch_loop (\<lambda>p. pass_MousePosUpdate rp p x y) (rev (m_vRenderPasses s))))"

definition MouseButtonUpdate ::
  "'p IRenderPass \<Rightarrow> ('p, 'b) DeviceManager \<Rightarrow> int \<Rightarrow> int \<Rightarrow> int \<Rightarrow> 'p event list" where
  "MouseButtonUpdate rp s button action mods =
     map (\<lambda>p. EvMouseButtonUpdate p button action mods)
       (dispatch_loop (\<lambda>p. pass_MouseButtonUpdate rp p button action mods)
          (rev (m_vRenderPasses s)))"

definition MouseScrollUpdate ::
  "'p IRenderPass \<Rightarrow> ('p, 'b) DeviceManager \<Rightarrow> real \<Rightarrow> real \<Rightarrow> 'p event list" where
  "MouseScrollUpdate rp s xoffset yoffset =
     map (\<lambda>p. EvMouseScrollUpdate p xoffset yoffset)
       (dispatch_loop (\<lambda>p. pass_MouseScrollUpdate rp p xoffset yoffset)
          (rev (m_vRenderPasses s)))"

text \<open>The five kinds of input event, and the pass each event of a trace went to.\<close>

datatype input_event =
    Key int int int int
  | Char nat int
  | MousePos real real
  | MouseButton int int int
  | MouseScroll real real

fun dispatch_input ::
  "'p IRenderPass \<Rightarrow> ('p, 'b) DeviceManager \<Rightarrow> input_event \<Rightarrow> 'p event list" where
  "dispatch_input rp s (Key k sc a m) = KeyboardUpdate rp s k sc a m"
| "dispatch_input rp s (Char u m) = KeyboardCharInput rp s u m"
| "dispatch_input rp s (MousePos x y) = MousePosUpdate rp s x y"
| "dispatch_input rp s (MouseButton b a m) = MouseButtonUpdate rp s b a m"
| "dispatch_input rp s (MouseScroll x y) = MouseScrollUpdate rp s x y"

text \<open>The answer of a pass's matching handler, with the arguments the manager passes.\<close>

fun handler :: "'p IRenderPass \<Rightarrow> ('p, 'b) DeviceManager \<Rightarrow> input_event \<Rightarrow> 'p \<Rightarrow> bool" where
  "handler rp s (Key k sc a m) p = pass_KeyboardUpdate rp p k sc a m"
| "handler rp s (Char u m) p = pass_KeyboardCharInput rp p u m"
| "handler rp s (MousePos x y) p =
     pass_MousePosUpdate rp p
       (if supportExplicitDisplayScaling (m_DeviceParams s) then x else x / m_DPIScaleFactorX s)
       (if supportExplicitDisplayScaling (m_DeviceParams s) then y else y / m_DPIScaleFactorY s)"
| "handler rp s (MouseButton b a m) p = pass_MouseButtonUpdate rp p b a m"
| "handler rp s (MouseScroll x y) p = pass_MouseScrollUpdate rp p x y"

text \<open>The call of that handler, as an event.\<close>

fun handler_call :: "('p, 'b) DeviceManager \<Rightarrow> input_event \<Rightarrow> 'p \<Rightarrow> 'p event" where
  "handler_call s (Key k sc a m) p = EvKeyboardUpdate p k sc a m"
| "handler_call s (Char u m) p = EvKeyboardCharInput p u m"
| "handler_call s (MousePos x y) p =
     EvMousePosUpdate p
       (if supportExplicitDisplayScaling (m_DeviceParams s) then x else x / m_DPIScaleFactorX s)
       (if supportExplicitDisplayScaling (m_DeviceParams s) then y else y / m_DPIScaleFactorY s)"
| "handler_call s (MouseButton b a m) p = EvMouseButtonUpdate p b a m"
| "handler_call s (MouseScroll x y) p = EvMouseScrollUpdate p x y"

fun receiver :: "'p event \<Rightarrow> 'p option" where
  "receiver (EvKeyboardUpdate p _ _ _ _) = Some p"
| "receiver (EvKeyboardCharInput p _ _) = Some p"
| "receiver (EvMousePosUpdate p _ _) = Some p"
| "receiver (EvMouseButtonUpdate p _ _ _) = Some p"
| "receiver (EvMouseScrollUpdate p _ _) = Some p"
| "receiver (EvBackBufferResizing p) = Some p"
| "receiver (EvBackBufferResized p _ _ _) = Some p"
| "receiver (EvDisplayScaleChanged p _ _) = Some p"
| "receiver (EvAnimate p _) = Some p"
| "receiver (EvSetLatewarpOptions p) = Some p"
| "receiver (EvRender p _) = Some p"
| "receiver _ = None"

definition receivers :: "'p event list \<Rightarrow> 'p list" where
  "receivers tr = List.map_filter receiver tr"

section \<open>Framebuffer access\<close>

text \<open>
  \<^verbatim>\<open>GetFramebuffer\<close> guards the index; the result is \<open>Inl OutOfRange\<close> if the vector
  were read outside its size, \<open>Inr None\<close> for a null pointer.
\<close>

definition GetFramebuffer ::
  "('p, 'b) DeviceManager \<Rightarrow> uint32_t \<Rightarrow> error + FramebufferHandle" where
  "GetFramebuffer s index =
     (if unat index < length (m_SwapChainFramebuffers s)
      then vector_at (m_SwapChainFramebuffers s) (unat index)
      else Inr None)"

definition GetCurrentFramebuffer ::
  "'b Backend \<Rightarrow> ('p, 'b) DeviceManager \<Rightarrow> error + FramebufferHandle" where
  "GetCurrentFramebuffer be s = GetFramebuffer s (GetCurrentBackBufferIndex be (backend s))"

section \<open>Resizing\<close>

text \<open>
  What the functions ask of the platform: \<^verbatim>\<open>android_app->window\<close>, the size the native
  window reports at the time of the call, and the display density divided by
  \<^verbatim>\<open>ACONFIGURATION_DENSITY_MEDIUM\<close>.
\<close>

record Platform =
  app_window :: "ANativeWindow option"
  ANativeWindow_getWidth :: "ANativeWindow \<Rightarrow> uint32_t"
  ANativeWindow_getHeight :: "ANativeWindow \<Rightarrow> uint32_t"
  density :: real

definition BackBufferResizing ::
  "('p, 'b) DeviceManager \<Rightarrow> 'p event list \<times> ('p, 'b) DeviceManager" where
  "BackBufferResizing s =
     (map EvBackBufferResizing (m_vRenderPasses s), s\<lparr>m_SwapChainFramebuffers := []\<rparr>)"

text \<open>\<^verbatim>\<open>std::vector::resize\<close>: cut, or fill up with null handles.\<close>

definition vector_resize :: "nat \<Rightarrow> FramebufferHandle list \<Rightarrow> FramebufferHandle list" where
  "vector_resize n xs = take n xs @ replicate (n - length xs) None"

text \<open>
  The loop \<^verbatim>\<open>for (uint32_t index = 0; index < backBufferCount; index++)\<close> of
  \<^verbatim>\<open>BackBufferResized\<close>, from the given index on. The vector has been resized to
  \<^verbatim>\<open>backBufferCount\<close> before, so every write is inside it.
\<close>

function create_framebuffers ::
  "'b Backend \<Rightarrow> 'b \<Rightarrow> uint32_t \<Rightarrow> uint32_t \<Rightarrow> 'p event list \<Rightarrow> FramebufferHandle list
     \<Rightarrow> 'p event list \<times> FramebufferHandle list" where
  "create_framebuffers be b backBufferCount index ev fbs =
     (if index < backBufferCount
      then create_framebuffers be b backBufferCount (index + 1)
             (ev @ [EvCreateFramebuffer (GetBackBuffer be b index)])
             (fbs[unat index := Some (Framebuffer (GetBackBuffer be b index))])
      else (ev, fbs))"
  by pat_completeness auto
termination
proof (relation "measure (\<lambda>(be, b, n, i, ev, fbs). unat n - unat i)", goal_cases)
  case 1
  show ?case by simp
next
  case (2 be b backBufferCount index ev fbs)
  then have "unat (index + 1) = Suc (unat index)" and "unat index < unat backBufferCount"
    by unat_arith+
  then show ?case by simp
qed

declare create_framebuffers.simps [simp del]

definition BackBufferResized ::
  "'b Backend \<Rightarrow> ('p, 'b) DeviceManager \<Rightarrow> 'p event list \<times> ('p, 'b) DeviceManager" where
  "BackBufferResized be s =
     (let notified = map (\<lambda>p. EvBackBufferResized p (backBufferWidth (m_DeviceParams s))
                            (backBufferHeight (m_DeviceParams s))
                            (swapChainSampleCount (m_DeviceParams s))) (m_vRenderPasses s);
          backBufferCount = GetBackBufferCount be (backend s);
          (ev, fbs) = create_framebuffers be (backend s) backBufferCount 0 notified
                        (vector_resize (unat backBufferCount) (m_SwapChainFramebuffers s))
      in (ev, s\<lparr>m_SwapChainFramebuffers := fbs\<rparr>))"

definition UpdateWindowSize ::
  "Platform \<Rightarrow> 'b Backend \<Rightarrow> ('p, 'b) DeviceManager \<Rightarrow> 'p event list \<times> ('p, 'b) DeviceManager" where
  "UpdateWindowSize pf be s =
     (case m_NativeWindow s of
        None \<Rightarrow> ([], s\<lparr>m_windowVisible := False\<rparr>)
      | Some window \<Rightarrow>
          let width = ANativeWindow_getWidth pf window;
              height = ANativeWindow_getHeight pf window
          in if width = 0 \<or> height = 0 then ([], s\<lparr>m_windowVisible := False\<rparr>)
             else
               let s1 = s\<lparr>m_windowVisible := True, m_windowIsInFocus := True\<rparr>
               in if backBufferWidth (m_DeviceParams s1) \<noteq> width
                     \<or> backBufferHeight (m_DeviceParams s1) \<noteq> height
                     \<or> (vsyncEnabled (m_DeviceParams s1) \<noteq> m_RequestedVSync s1
                         \<and> GetGraphicsAPI be (backend s1) = VULKAN)
                  then
                    let (ev1, s2) = BackBufferResizing s1;
                        s3 = s2\<lparr>m_DeviceParams := (m_DeviceParams s2)
                                 \<lparr>backBufferWidth := width, backBufferHeight := height,
                                  vsyncEnabled := m_RequestedVSync s2\<rparr>\<rparr>;
                        s4 = s3\<lparr>backend := ResizeSwapChain be (m_DeviceParams s3) (backend s3)\<rparr>;
                        (ev2, s5) = BackBufferResized be s4
                    in (ev1 @ [EvResizeSwapChain width height] @ ev2,
                        s5\<lparr>m_DeviceParams := (m_DeviceParams s5)
                             \<lparr>vsyncEnabled := m_RequestedVSync s5\<rparr>\<rparr>)
                  else ([], s1\<lparr>m_DeviceParams := (m_DeviceParams s1)
                                \<lparr>vsyncEnabled := m_RequestedVSync s1\<rparr>\<rparr>))"

text \<open>
  \<open>resize_requested\<close> is the condition under which \<^verbatim>\<open>UpdateWindowSize\<close> runs the resize
  sequence for a window of the given true size.
\<close>

definition resize_requested ::
  "'b Backend \<Rightarrow> ('p, 'b) DeviceManager \<Rightarrow> uint32_t \<Rightarrow> uint32_t \<Rightarrow> bool" where
  "resize_requested be s width height \<longleftrightarrow>
     backBufferWidth (m_DeviceParams s) \<noteq> width
     \<or> backBufferHeight (m_DeviceParams s) \<noteq> height
     \<or> (vsyncEnabled (m_DeviceParams s) \<noteq> m_RequestedVSync s
         \<and> GetGraphicsAPI be (backend s) = VULKAN)"

text \<open>
  The framebuffer set the specification describes: one framebuffer for each back buffer
  of the swap chain, the entry at index \<open>i\<close> built over back buffer \<open>i\<close>.
\<close>

definition swapchain_framebuffers :: "'b Backend \<Rightarrow> 'b \<Rightarrow> FramebufferHandle list" where
  "swapchain_framebuffers be b =
     map (\<lambda>i. Some (Framebuffer (GetBackBuffer be b (of_nat i))))
       [0..<unat (GetBackBufferCount be b)]"

text \<open>A sequence of resize events: the window takes each size in turn.\<close>

fun resize_events ::
  "'b Backend \<Rightarrow> ('p, 'b) DeviceManager \<Rightarrow> (uint32_t \<times> uint32_t) list \<Rightarrow> ('p, 'b) DeviceManager" where
  "resize_events be s [] = s"
| "resize_events be s ((w, h) # es) =
     resize_events be
       (snd (UpdateWindowSize
          \<lparr>app_window = m_NativeWindow s, ANativeWindow_getWidth = (\<lambda>_. w),
           ANativeWindow_getHeight = (\<lambda>_. h), density = 1\<rparr> be s)) es"

section \<open>Creation and shutdown\<close>

definition CreateInstance ::
  "'b Backend \<Rightarrow> ('p, 'b) DeviceManager \<Rightarrow> DeviceCreationParameters \<Rightarrow> bool \<times> ('p, 'b) DeviceManager" where
  "CreateInstance be s params =
     (if m_InstanceCreated s then (True, s)
      else
        let s1 = s\<lparr>m_DeviceParams := (m_DeviceParams s)\<lparr>headlessDevice := headlessDevice params\<rparr>\<rparr>;
            (created, b) = CreateInstanceInternal be (m_DeviceParams s1) (backend s1)
        in (created, s1\<lparr>m_InstanceCreated := created, backend := b\<rparr>))"

definition CreateWindowDeviceAndSwapChain ::
  "Platform \<Rightarrow> 'b Backend \<Rightarrow> ('p, 'b) DeviceManager \<Rightarrow> DeviceCreationParameters
     \<Rightarrow> bool \<times> 'p event list \<times> ('p, 'b) DeviceManager" where
  "CreateWindowDeviceAndSwapChain pf be s params =
     (let s1 = s\<lparr>m_DeviceParams := params\<lparr>headlessDevice := False\<rparr>,
                 m_RequestedVSync := vsyncEnabled params\<rparr>;
          (instance, s2) = CreateInstance be s1 (m_DeviceParams s1)
      in if \<not> instance then (False, [], s2)
         else case app_window pf of
           None \<Rightarrow> (False, [], s2)
         | Some nativeWindow \<Rightarrow>
             let s3 = s2\<lparr>m_DeviceParams := (m_DeviceParams s2)
                          \<lparr>backBufferWidth := ANativeWindow_getWidth pf nativeWindow,
                           backBufferHeight := ANativeWindow_getHeight pf nativeWindow\<rparr>,
                        m_NativeWindow := Some nativeWindow,
                        m_DPIScaleFactorX := density pf, m_DPIScaleFactorY := density pf\<rparr>;
                 (device, b4) = CreateDevice be (m_DeviceParams s3) (backend s3);
                 s4 = s3\<lparr>backend := b4\<rparr>
             in if \<not> device then (False, [], s4)
                else
                  let (swapChain, b5) = CreateSwapChain be (m_DeviceParams s4) (backend s4);
                      s5 = s4\<lparr>backend := b5\<rparr>
                  in if \<not> swapChain then (False, [], s5)
                     else
                       let s6 = s5\<lparr>m_windowVisible := True,
                                    m_DeviceParams := (m_DeviceParams s5)
                                      \<lparr>backBufferWidth := 0, backBufferHeight := 0\<rparr>\<rparr>;
                           (ev, s7) = UpdateWindowSize pf be s6
                       in (True, ev, s7))"

definition Shutdown :: "'b Backend \<Rightarrow> ('p, 'b) DeviceManager \<Rightarrow> ('p, 'b) DeviceManager" where
  "Shutdown be s =
     s\<lparr>m_SwapChainFramebuffers := [], backend := DestroyDeviceAndSwapChain be (backend s),
       m_NativeWindow := None, m_InstanceCreated := False\<rparr>"

section \<open>The frame\<close>

definition DisplayScaleChanged :: "('p, 'b) DeviceManager \<Rightarrow> 'p event list" where
  "DisplayScaleChanged s =
     map (\<lambda>p. EvDisplayScaleChanged p (m_DPIScaleFactorX s) (m_DPIScaleFactorY s))
       (m_vRenderPasses s)"

definition Animate :: "('p, 'b) DeviceManager \<Rightarrow> real \<Rightarrow> 'p event list" where
  "Animate s elapsedTime =
     concat (map (\<lambda>p. [EvAnimate p elapsedTime, EvSetLatewarpOptions p]) (m_vRenderPasses s))"

text \<open>\<^verbatim>\<open>Render\<close> reads the framebuffer vector without a check.\<close>

definition Render :: "'b Backend \<Rightarrow> ('p, 'b) DeviceManager \<Rightarrow> error + 'p event list" where
  "Render be s =
     (case vector_at (m_SwapChainFramebuffers s) (unat (GetCurrentBackBufferIndex be (backend s))) of
        Inl e \<Rightarrow> Inl e
      | Inr framebuffer \<Rightarrow> Inr (map (\<lambda>p. EvRender p framebuffer) (m_vRenderPasses s)))"

text \<open>
  \<^verbatim>\<open>UpdateAverageFrameTime\<close>: both accumulators are updated first; the increment of the
  counter is undefined at \<^verbatim>\<open>INT_MAX\<close>.
\<close>

definition UpdateAverageFrameTime ::
  "('p, 'b) DeviceManager \<Rightarrow> double \<Rightarrow> error + ('p, 'b) DeviceManager" where
  "UpdateAverageFrameTime s elapsedTime =
     (if INT_MAX \<le> m_NumberOfAccumulatedFrames s then Inl SignedOverflow
      else
        let s1 = s\<lparr>m_FrameTimeSum := fadd (m_FrameTimeSum s) elapsedTime,
                   m_NumberOfAccumulatedFrames := m_NumberOfAccumulatedFrames s + 1\<rparr>
        in if fgt (m_FrameTimeSum s1) (m_AverageTimeUpdateInterval s1)
              \<and> m_NumberOfAccumulatedFrames s1 > 0
           then Inr (s1\<lparr>m_AverageFrameTime :=
                           fdiv_int (m_FrameTimeSum s1) (m_NumberOfAccumulatedFrames s1),
                         m_NumberOfAccumulatedFrames := 0,
                         m_FrameTimeSum := Finite 0\<rparr>)
           else Inr s1)"

definition SetFrameTimeUpdateInterval ::
  "('p, 'b) DeviceManager \<Rightarrow> double \<Rightarrow> ('p, 'b) DeviceManager" where
  "SetFrameTimeUpdateInterval s seconds = s\<lparr>m_AverageTimeUpdateInterval := seconds\<rparr>"

text \<open>Feeding a sequence of elapsed times, one call for each.\<close>

fun feed ::
  "('p, 'b) DeviceManager \<Rightarrow> double list \<Rightarrow> error + ('p, 'b) DeviceManager" where
  "feed s [] = Inr s"
| "feed s (e # es) =
     (case UpdateAverageFrameTime s e of Inl x \<Rightarrow> Inl x | Inr s' \<Rightarrow> feed s' es)"

text \<open>The sum of elapsed times as the code forms it: added one by one, from zero.\<close>

definition accumulated :: "double list \<Rightarrow> double" where
  "accumulated es = foldl fadd (Finite 0) es"

fun unfocused_loop :: "('p \<Rightarrow> bool) \<Rightarrow> 'p list \<Rightarrow> bool" where
  "unfocused_loop h [] = False"
| "unfocused_loop h (p # ps) = (if h p then True else unfocused_loop h ps)"

definition ShouldRenderUnfocused :: "'p IRenderPass \<Rightarrow> ('p, 'b) DeviceManager \<Rightarrow> bool" where
  "ShouldRenderUnfocused rp s =
     unfocused_loop (pass_ShouldRenderUnfocused rp) (rev (m_vRenderPasses s))"

definition call_hook :: "bool \<Rightarrow> hook \<Rightarrow> uint32_t \<Rightarrow> 'p event list" where
  "call_hook registered h frameIndex = (if registered then [EvHook h frameIndex] else [])"

text \<open>
  The end of \<^verbatim>\<open>AnimateRenderPresent\<close>, reached unless the present failed: garbage
  collection, the average frame time, the time stamp and the frame index. The elapsed time
  is the difference of two time stamps in double arithmetic, that is the double nearest to
  their exact difference.
\<close>

definition finish_tick ::
  "real \<Rightarrow> real \<Rightarrow> 'p event list \<Rightarrow> ('p, 'b) DeviceManager
     \<Rightarrow> error + (bool \<times> 'p event list \<times> ('p, 'b) DeviceManager)" where
  "finish_tick curTime elapsedTime ev s =
     (case UpdateAverageFrameTime s (round_to_double elapsedTime) of
        Inl e \<Rightarrow> Inl e
      | Inr s1 \<Rightarrow>
          Inr (True, ev @ [EvRunGarbageCollection],
               s1\<lparr>m_PreviousFrameTimestamp := curTime, m_FrameIndex := m_FrameIndex s1 + 1\<rparr>))"

text \<open>
  The gamepad update at the head of the function has an empty body in the source and
  touches only the input manager's own device lists; it is left out.
\<close>

definition AnimateRenderPresent ::
  "'p IRenderPass \<Rightarrow> 'b Backend \<Rightarrow> real \<Rightarrow> ('p, 'b) DeviceManager
     \<Rightarrow> error + (bool \<times> 'p event list \<times> ('p, 'b) DeviceManager)" where
  "AnimateRenderPresent rp be curTime s =
     (let elapsedTime = curTime - m_PreviousFrameTimestamp s
      in if m_windowVisible s \<and> (m_windowIsInFocus s \<or> ShouldRenderUnfocused rp s)
         then
           let (ev_scale, s1) =
                 (if m_PrevDPIScaleFactorX s \<noteq> m_DPIScaleFactorX s
                     \<or> m_PrevDPIScaleFactorY s \<noteq> m_DPIScaleFactorY s
                  then (DisplayScaleChanged s,
                        s\<lparr>m_PrevDPIScaleFactorX := m_DPIScaleFactorX s,
                          m_PrevDPIScaleFactorY := m_DPIScaleFactorY s\<rparr>)
                  else ([], s));
               ev_animate =
                 ev_scale
                 @ call_hook (beforeAnimate (m_callbacks s1)) BeforeAnimate (m_FrameIndex s1)
                 @ Animate s1 elapsedTime
                 @ call_hook (afterAnimate (m_callbacks s1)) AfterAnimate (m_FrameIndex s1)
           in if m_FrameIndex s1 > 0 \<or> \<not> m_SkipRenderOnFirstFrame s1
              then
                let (began, b2) = BeginFrame be (m_DeviceParams s1) (backend s1);
                    s2 = s1\<lparr>backend := b2\<rparr>
                in if began
                   then
                     let frameIndex = (if m_SkipRenderOnFirstFrame s2 then m_FrameIndex s2 - 1
                                       else m_FrameIndex s2)
                     in case Render be s2 of
                          Inl e \<Rightarrow> Inl e
                        | Inr ev_render \<Rightarrow>
                            let (presentSuccess, b3) = Present be (m_DeviceParams s2) (backend s2);
                                s3 = s2\<lparr>backend := b3\<rparr>;
                                ev = ev_animate @ [EvBeginFrame True]
                                     @ call_hook (beforeRender (m_callbacks s2)) BeforeRender frameIndex
                                     @ ev_render
                                     @ call_hook (afterRender (m_callbacks s2)) AfterRender frameIndex
                                     @ call_hook (beforePresent (m_callbacks s2)) BeforePresent frameIndex
                                     @ [EvPresent presentSuccess]
                                     @ call_hook (afterPresent (m_callbacks s2)) AfterPresent frameIndex
                            in if \<not> presentSuccess then Inr (False, ev, s3)
                               else finish_tick curTime elapsedTime ev s3
                   else finish_tick curTime elapsedTime (ev_animate @ [EvBeginFrame False]) s2
              else finish_tick curTime elapsedTime ev_animate s1
         else finish_tick curTime elapsedTime [] s)"

section \<open>The message loop\<close>

text \<open>
  One turn of the loop of \<^verbatim>\<open>RunMessageLoop\<close> sees: whether destruction was requested,
  what processing the polled platform events does to the manager (callbacks into it), and
  the time the clock shows in \<^verbatim>\<open>AnimateRenderPresent\<close>.
\<close>

record ('p, 'b) tick =
  destroyRequested :: bool
  process_events :: "('p, 'b) DeviceManager \<Rightarrow> 'p event list \<times> ('p, 'b) DeviceManager"
  clock :: real

definition prepend ::
  "'p event list \<Rightarrow> (error + 'p event list \<times> 's) option \<Rightarrow> (error + 'p event list \<times> 's) option" where
  "prepend ev r =
     (case r of None \<Rightarrow> None
      | Some (Inl e) \<Rightarrow> Some (Inl e)
      | Some (Inr (ev', s)) \<Rightarrow> Some (Inr (ev @ ev', s)))"

text \<open>
  The \<^verbatim>\<open>while\<close> loop, driven by the turns the platform provides. \<open>None\<close>: the loop is
  still running when the given turns are used up. \<open>Some (Inl e)\<close>: undefined behaviour.
  \<open>Some (Inr (ev, s))\<close>: the loop was left.
\<close>

fun message_loop ::
  "'p IRenderPass \<Rightarrow> 'b Backend \<Rightarrow> ('p, 'b) tick list \<Rightarrow> ('p, 'b) DeviceManager
     \<Rightarrow> (error + 'p event list \<times> ('p, 'b) DeviceManager) option" where
  "message_loop rp be [] s = None"
| "message_loop rp be (t # ts) s =
     (if destroyRequested t then Some (Inr ([], s))
      else
        case process_events t s of (ev_p, s1) \<Rightarrow>
          if m_windowVisible s1
          then (case AnimateRenderPresent rp be (clock t) s1 of
                  Inl e \<Rightarrow> Some (Inl e)
                | Inr (presentSuccess, ev, s2) \<Rightarrow>
                    if \<not> presentSuccess then Some (Inr (ev_p @ ev, s2))
                    else prepend (ev_p @ ev) (message_loop rp be ts s2))
          else prepend ev_p (message_loop rp be ts s1))"

definition RunMessageLoop ::
  "'p IRenderPass \<Rightarrow> 'b Backend \<Rightarrow> real \<Rightarrow> ('p, 'b) tick list \<Rightarrow> ('p, 'b) DeviceManager
     \<Rightarrow> (error + 'p event list \<times> ('p, 'b) DeviceManager) option" where
  "RunMessageLoop rp be now ts s =
     (case message_loop rp be ts (s\<lparr>m_PreviousFrameTimestamp := now\<rparr>) of
        None \<Rightarrow> None
      | Some (Inl e) \<Rightarrow> Some (Inl e)
      | Some (Inr (ev, s')) \<Rightarrow> Some (Inr (ev @ [EvWaitForIdle], s')))"

text \<open>
  \<open>loop_through rp be ts s\<close>: the loop takes all the turns \<open>ts\<close> from \<open>s\<close> and is at its
  head again, with the events so far and the state reached.
\<close>

fun loop_through ::
  "'p IRenderPass \<Rightarrow> 'b Backend \<Rightarrow> ('p, 'b) tick list \<Rightarrow> ('p, 'b) DeviceManager
     \<Rightarrow> ('p event list \<times> ('p, 'b) DeviceManager) option" where
  "loop_through rp be [] s = Some ([], s)"
| "loop_through rp be (t # ts) s =
     (if destroyRequested t then None
      else
        case process_events t s of (ev_p, s1) \<Rightarrow>
          if m_windowVisible s1
          then (case AnimateRenderPresent rp be (clock t) s1 of
                  Inl e \<Rightarrow> None
                | Inr (presentSuccess, ev, s2) \<Rightarrow>
                    if \<not> presentSuccess then None
                    else map_option (\<lambda>(ev', s'). (ev_p @ ev @ ev', s')) (loop_through rp be ts s2))
          else map_option (\<lambda>(ev', s'). (ev_p @ ev', s')) (loop_through rp be ts s1))"

section \<open>A backend and passes to run the model on\<close>

text \<open>
  A backend without state: a fixed number of back buffers, texture \<open>i\<close> for back buffer
  \<open>i\<close>, a fixed answer of \<^verbatim>\<open>Present\<close>.
\<close>

definition fixed_backend :: "uint32_t \<Rightarrow> bool \<Rightarrow> GraphicsAPI \<Rightarrow> unit Backend" where
  "fixed_backend n presents api =
     \<lparr> CreateInstanceInternal = (\<lambda>_ b. (True, b)), CreateDevice = (\<lambda>_ b. (True, b)),
       CreateSwapChain = (\<lambda>_ b. (True, b)), DestroyDeviceAndSwapChain = (\<lambda>b. b),
       ResizeSwapChain = (\<lambda>_ b. b), BeginFrame = (\<lambda>_ b. (True, b)),
       Present = (\<lambda>_ b. (presents, b)), GetGraphicsAPI = (\<lambda>_. api),
       GetBackBuffer = (\<lambda>_ i. unat i), GetCurrentBackBufferIndex = (\<lambda>_. 0),
       GetBackBufferCount = (\<lambda>_. n) \<rparr>"

text \<open>Passes whose input handlers all answer \<open>c p\<close>.\<close>

definition passes_consuming :: "('p \<Rightarrow> bool) \<Rightarrow> 'p IRenderPass" where
  "passes_consuming c =
     \<lparr> pass_ShouldRenderUnfocused = (\<lambda>_. False),
       pass_KeyboardUpdate = (\<lambda>p _ _ _ _. c p), pass_KeyboardCharInput = (\<lambda>p _ _. c p),
       pass_MousePosUpdate = (\<lambda>p _ _. c p), pass_MouseButtonUpdate = (\<lambda>p _ _ _. c p),
       pass_MouseScrollUpdate = (\<lambda>p _ _. c p) \<rparr>"

definition window_of_size :: "uint32_t \<Rightarrow> uint32_t \<Rightarrow> Platform" where
  "window_of_size w h =
     \<lparr> app_window = Some 1, ANativeWindow_getWidth = (\<lambda>_. w),
       ANativeWindow_getHeight = (\<lambda>_. h), density = 1 \<rparr>"

text \<open>
  A manager that is running: the window is visible, one pass is registered and one
  framebuffer exists. All hooks registered. Two turns of the message loop: one in which
  the window becomes hidden, one in which it becomes visible.
\<close>

definition running_manager :: "(nat, unit) DeviceManager" where
  "running_manager =
     (DeviceManager_new ())\<lparr>m_windowVisible := True, m_vRenderPasses := [1],
        m_SwapChainFramebuffers := [Some (Framebuffer 0)]\<rparr>"

definition all_hooks :: PipelineCallbacks where
  "all_hooks =
     \<lparr> beforeFrame = True, beforeAnimate = True, afterAnimate = True, beforeRender = True,
       afterRender = True, beforePresent = True, afterPresent = True \<rparr>"

definition turn_hidden :: "real \<Rightarrow> (nat, unit) tick" where
  "turn_hidden now =
     \<lparr> destroyRequested = False, process_events = (\<lambda>s. ([], s\<lparr>m_windowVisible := False\<rparr>)),
       clock = now \<rparr>"

definition turn_visible :: "real \<Rightarrow> (nat, unit) tick" where
  "turn_visible now =
     \<lparr> destroyRequested = False, process_events = (\<lambda>s. ([], s\<lparr>m_windowVisible := True\<rparr>)),
       clock = now \<rparr>"

section \<open>Notions used to state the properties of a tick\<close>

text \<open>The condition under which \<^verbatim>\<open>AnimateRenderPresent\<close> animates at all.\<close>

definition window_active :: "'p IRenderPass \<Rightarrow> ('p, 'b) DeviceManager \<Rightarrow> bool" where
  "window_active rp s \<longleftrightarrow>
     m_windowVisible s \<and> (m_windowIsInFocus s \<or> ShouldRenderUnfocused rp s)"

text \<open>The hooks around rendering and presenting, and the events of that stage.\<close>

fun render_hook :: "hook \<Rightarrow> bool" where
  "render_hook BeforeRender = True"
| "render_hook AfterRender = True"
| "render_hook BeforePresent = True"
| "render_hook AfterPresent = True"
| "render_hook _ = False"

fun render_stage :: "'p event \<Rightarrow> bool" where
  "render_stage (EvBeginFrame _) = True"
| "render_stage (EvRender _ _) = True"
| "render_stage (EvPresent _) = True"
| "render_stage (EvHook h _) = render_hook h"
| "render_stage _ = False"

fun registered :: "PipelineCallbacks \<Rightarrow> hook \<Rightarrow> bool" where
  "registered cb BeforeFrame = beforeFrame cb"
| "registered cb BeforeAnimate = beforeAnimate cb"
| "registered cb AfterAnimate = afterAnimate cb"
| "registered cb BeforeRender = beforeRender cb"
| "registered cb AfterRender = afterRender cb"
| "registered cb BeforePresent = beforePresent cb"
| "registered cb AfterPresent = afterPresent cb"

text \<open>The manager after the display scale check, and the events up to the end of animation.\<close>

definition scale_checked :: "('p, 'b) DeviceManager \<Rightarrow> ('p, 'b) DeviceManager" where
  "scale_checked s =
     (if m_PrevDPIScaleFactorX s \<noteq> m_DPIScaleFactorX s
         \<or> m_PrevDPIScaleFactorY s \<noteq> m_DPIScaleFactorY s
      then s\<lparr>m_PrevDPIScaleFactorX := m_DPIScaleFactorX s,
             m_PrevDPIScaleFactorY := m_DPIScaleFactorY s\<rparr>
      else s)"

definition animate_events :: "('p, 'b) DeviceManager \<Rightarrow> real \<Rightarrow> 'p event list" where
  "animate_events s elapsedTime =
     (if m_PrevDPIScaleFactorX s \<noteq> m_DPIScaleFactorX s
         \<or> m_PrevDPIScaleFactorY s \<noteq> m_DPIScaleFactorY s
      then DisplayScaleChanged s else [])
     @ call_hook (beforeAnimate (m_callbacks s)) BeforeAnimate (m_FrameIndex s)
     @ Animate s elapsedTime
     @ call_hook (afterAnimate (m_callbacks s)) AfterAnimate (m_FrameIndex s)"

text \<open>The events from a successful \<^verbatim>\<open>BeginFrame\<close> to the hook after the present.\<close>

definition frame_events ::
  "('p, 'b) DeviceManager \<Rightarrow> 'p event list \<Rightarrow> bool \<Rightarrow> 'p event list" where
  "frame_events s ev_render presentSuccess =
     (let frameIndex = (if m_SkipRenderOnFirstFrame s then m_FrameIndex s - 1 else m_FrameIndex s)
      in [EvBeginFrame True]
         @ call_hook (beforeRender (m_callbacks s)) BeforeRender frameIndex
         @ ev_render
         @ call_hook (afterRender (m_callbacks s)) AfterRender frameIndex
         @ call_hook (beforePresent (m_callbacks s)) BeforePresent frameIndex
         @ [EvPresent presentSuccess]
         @ call_hook (afterPresent (m_callbacks s)) AfterPresent frameIndex)"

section \<open>Auxiliary facts\<close>

lemma distinct_apply_pass_op:
  "distinct (m_vRenderPasses s) \<Longrightarrow> distinct (m_vRenderPasses (apply_pass_op s op))"
  by (cases op)
    (simp_all add: AddRenderPassToFront_def AddRenderPassToBack_def RemoveRenderPass_def
      distinct_removeAll)

lemma distinct_foldl_pass_ops:
  "distinct (m_vRenderPasses s) \<Longrightarrow> distinct (m_vRenderPasses (foldl apply_pass_op s ops))"
  by (induction ops arbitrary: s) (simp_all add: distinct_apply_pass_op)

lemma receivers_map:
  "(\<And>p. receiver (f p) = Some p) \<Longrightarrow> receivers (map f ps) = ps"
  by (induction ps) (simp_all add: receivers_def List.map_filter_simps)

lemma handler_unfold:
  "handler rp s (Key k sc a m) = (\<lambda>p. pass_KeyboardUpdate rp p k sc a m)"
  "handler rp s (Char u m) = (\<lambda>p. pass_KeyboardCharInput rp p u m)"
  "handler rp s (MousePos x y) = (\<lambda>p. pass_MousePosUpdate rp p
       (if supportExplicitDisplayScaling (m_DeviceParams s) then x else x / m_DPIScaleFactorX s)
       (if supportExplicitDisplayScaling (m_DeviceParams s) then y else y / m_DPIScaleFactorY s))"
  "handler rp s (MouseButton b a m) = (\<lambda>p. pass_MouseButtonUpdate rp p b a m)"
  "handler rp s (MouseScroll x y) = (\<lambda>p. pass_MouseScrollUpdate rp p x y)"
  by (rule ext, simp)+

lemma handler_call_unfold:
  "handler_call s (Key k sc a m) = (\<lambda>p. EvKeyboardUpdate p k sc a m)"
  "handler_call s (Char u m) = (\<lambda>p. EvKeyboardCharInput p u m)"
  "handler_call s (MousePos x y) = (\<lambda>p. EvMousePosUpdate p
       (if supportExplicitDisplayScaling (m_DeviceParams s) then x else x / m_DPIScaleFactorX s)
       (if supportExplicitDisplayScaling (m_DeviceParams s) then y else y / m_DPIScaleFactorY s))"
  "handler_call s (MouseButton b a m) = (\<lambda>p. EvMouseButtonUpdate p b a m)"
  "handler_call s (MouseScroll x y) = (\<lambda>p. EvMouseScrollUpdate p x y)"
  by (rule ext, simp)+

lemma dispatch_input_eq:
  "dispatch_input rp s e =
     map (handler_call s e) (dispatch_loop (handler rp s e) (rev (m_vRenderPasses s)))"
  by (cases e) (simp_all add: KeyboardUpdate_def KeyboardCharInput_def MousePosUpdate_def
      MouseButtonUpdate_def MouseScrollUpdate_def Let_def handler_unfold handler_call_unfold)

lemma receiver_handler_call: "receiver (handler_call s e p) = Some p"
  by (cases e) simp_all

lemma receivers_dispatch_input:
  "receivers (dispatch_input rp s e) = dispatch_loop (handler rp s e) (rev (m_vRenderPasses s))"
  by (simp add: dispatch_input_eq receivers_map receiver_handler_call)

lemma dispatch_loop_takeWhile:
  "dispatch_loop h ps = takeWhile (\<lambda>p. \<not> h p) ps @ take 1 (dropWhile (\<lambda>p. \<not> h p) ps)"
  by (induction ps) simp_all

lemma dispatch_loop_none: "(\<forall>p\<in>set ps. \<not> h p) \<Longrightarrow> dispatch_loop h ps = ps"
  by (induction ps) simp_all

lemma dispatch_loop_butlast: "p \<in> set (butlast (dispatch_loop h ps)) \<Longrightarrow> \<not> h p"
  by (induction ps) (auto split: if_splits)

lemma dispatch_loop_eq_Nil: "dispatch_loop h ps = [] \<longleftrightarrow> ps = []"
  by (cases ps) simp_all

lemma dispatch_loop_last: "\<exists>p\<in>set ps. h p \<Longrightarrow> h (last (dispatch_loop h ps))"
  by (induction ps) (auto simp: dispatch_loop_eq_Nil)

lemma dispatch_loop_hd: "ps \<noteq> [] \<Longrightarrow> hd (dispatch_loop h ps) = hd ps"
  by (cases ps) simp_all

lemma dispatch_loop_set: "set (dispatch_loop h ps) \<subseteq> set ps"
  by (induction ps) auto

lemma dispatch_loop_distinct: "distinct ps \<Longrightarrow> distinct (dispatch_loop h ps)"
proof (induction ps)
  case Nil
  then show ?case by simp
next
  case (Cons p ps)
  then show ?case using dispatch_loop_set [of h ps] by auto
qed

lemma create_framebuffers_eq:
  "length fbs = unat n \<Longrightarrow> index \<le> n \<Longrightarrow>
   create_framebuffers be b n index ev fbs =
     (ev @ map (\<lambda>i. EvCreateFramebuffer (GetBackBuffer be b (of_nat i))) [unat index..<unat n],
      take (unat index) fbs
      @ map (\<lambda>i. Some (Framebuffer (GetBackBuffer be b (of_nat i)))) [unat index..<unat n])"
proof (induction be b n index ev fbs rule: create_framebuffers.induct)
  case (1 be b n index ev fbs)
  show ?case
  proof (cases "index < n")
    case True
    then have suc: "unat (index + 1) = Suc (unat index)" and lt: "unat index < unat n"
      by unat_arith+
    from True have le: "index + 1 \<le> n"
      by (rule inc_le)
    have upt: "[unat index..<unat n] = unat index # [Suc (unat index)..<unat n]"
      using lt by (simp add: upt_conv_Cons)
    have tk: "take (Suc (unat index)) (fbs[unat index := v]) = take (unat index) fbs @ [v]" for v
      using lt "1.prems"(1) by (simp add: take_Suc_conv_app_nth)
    have "create_framebuffers be b n index ev fbs =
          create_framebuffers be b n (index + 1)
            (ev @ [EvCreateFramebuffer (GetBackBuffer be b index)])
            (fbs[unat index := Some (Framebuffer (GetBackBuffer be b index))])"
      using True by (subst create_framebuffers.simps) simp
    also have "\<dots> =
      ((ev @ [EvCreateFramebuffer (GetBackBuffer be b index)])
         @ map (\<lambda>i. EvCreateFramebuffer (GetBackBuffer be b (of_nat i))) [unat (index + 1)..<unat n],
       take (unat (index + 1)) (fbs[unat index := Some (Framebuffer (GetBackBuffer be b index))])
       @ map (\<lambda>i. Some (Framebuffer (GetBackBuffer be b (of_nat i)))) [unat (index + 1)..<unat n])"
      using "1.IH" [OF True _ le] "1.prems"(1) by simp
    finally show ?thesis
      by (simp add: suc upt tk)
  next
    case False
    with "1.prems"(2) have "index = n" by simp
    then show ?thesis
      using "1.prems"(1) by (subst create_framebuffers.simps) simp
  qed
qed

lemma length_vector_resize: "length (vector_resize n xs) = n"
  by (simp add: vector_resize_def)

lemma BackBufferResized_eq:
  "BackBufferResized be s =
     (map (\<lambda>p. EvBackBufferResized p (backBufferWidth (m_DeviceParams s))
                  (backBufferHeight (m_DeviceParams s))
                  (swapChainSampleCount (m_DeviceParams s))) (m_vRenderPasses s)
      @ map (\<lambda>i. EvCreateFramebuffer (GetBackBuffer be (backend s) (of_nat i)))
          [0..<unat (GetBackBufferCount be (backend s))],
      s\<lparr>m_SwapChainFramebuffers := swapchain_framebuffers be (backend s)\<rparr>)"
  by (simp add: BackBufferResized_def Let_def create_framebuffers_eq length_vector_resize
      swapchain_framebuffers_def)

lemma UpdateWindowSize_resized:
  assumes win: "m_NativeWindow s = Some window"
    and w: "ANativeWindow_getWidth pf window = width"
    and h: "ANativeWindow_getHeight pf window = height"
    and nz: "width \<noteq> 0" "height \<noteq> 0"
    and req: "resize_requested be s width height"
  shows "UpdateWindowSize pf be s =
    (map EvBackBufferResizing (m_vRenderPasses s)
     @ [EvResizeSwapChain width height]
     @ map (\<lambda>p. EvBackBufferResized p width height (swapChainSampleCount (m_DeviceParams s)))
         (m_vRenderPasses s)
     @ map (\<lambda>i. EvCreateFramebuffer
               (GetBackBuffer be
                  (ResizeSwapChain be
                     ((m_DeviceParams s)\<lparr>backBufferWidth := width, backBufferHeight := height,
                        vsyncEnabled := m_RequestedVSync s\<rparr>) (backend s)) (of_nat i)))
         [0..<unat (GetBackBufferCount be
                  (ResizeSwapChain be
                     ((m_DeviceParams s)\<lparr>backBufferWidth := width, backBufferHeight := height,
                        vsyncEnabled := m_RequestedVSync s\<rparr>) (backend s)))],
     s\<lparr>m_windowVisible := True, m_windowIsInFocus := True,
       m_DeviceParams := (m_DeviceParams s)\<lparr>backBufferWidth := width, backBufferHeight := height,
                        vsyncEnabled := m_RequestedVSync s\<rparr>,
       m_SwapChainFramebuffers :=
         swapchain_framebuffers be
           (ResizeSwapChain be
              ((m_DeviceParams s)\<lparr>backBufferWidth := width, backBufferHeight := height,
                 vsyncEnabled := m_RequestedVSync s\<rparr>) (backend s)),
       backend := ResizeSwapChain be
              ((m_DeviceParams s)\<lparr>backBufferWidth := width, backBufferHeight := height,
                 vsyncEnabled := m_RequestedVSync s\<rparr>) (backend s)\<rparr>)"
proof -
  from req have c: "backBufferWidth (m_DeviceParams s) \<noteq> width
      \<or> backBufferHeight (m_DeviceParams s) \<noteq> height
      \<or> (vsyncEnabled (m_DeviceParams s) \<noteq> m_RequestedVSync s
          \<and> GetGraphicsAPI be (backend s) = VULKAN)"
    by (simp add: resize_requested_def)
  show ?thesis
    unfolding UpdateWindowSize_def
    using c nz by (simp add: win w h Let_def BackBufferResizing_def BackBufferResized_eq)
qed

lemma UpdateWindowSize_kept:
  assumes win: "m_NativeWindow s = Some window"
    and w: "ANativeWindow_getWidth pf window = width"
    and h: "ANativeWindow_getHeight pf window = height"
    and nz: "width \<noteq> 0" "height \<noteq> 0"
    and req: "\<not> resize_requested be s width height"
  shows "UpdateWindowSize pf be s =
    ([], s\<lparr>m_windowVisible := True, m_windowIsInFocus := True,
           m_DeviceParams := (m_DeviceParams s)\<lparr>vsyncEnabled := m_RequestedVSync s\<rparr>\<rparr>)"
proof -
  from req have c: "\<not> (backBufferWidth (m_DeviceParams s) \<noteq> width
      \<or> backBufferHeight (m_DeviceParams s) \<noteq> height
      \<or> (vsyncEnabled (m_DeviceParams s) \<noteq> m_RequestedVSync s
          \<and> GetGraphicsAPI be (backend s) = VULKAN))"
    by (simp add: resize_requested_def)
  show ?thesis
    unfolding UpdateWindowSize_def
    using c nz by (auto simp add: win w h Let_def)
qed

lemma UpdateWindowSize_hidden:
  assumes "m_NativeWindow s = None
     \<or> (\<exists>window. m_NativeWindow s = Some window
          \<and> (ANativeWindow_getWidth pf window = 0 \<or> ANativeWindow_getHeight pf window = 0))"
  shows "UpdateWindowSize pf be s = ([], s\<lparr>m_windowVisible := False\<rparr>)"
  using assms unfolding UpdateWindowSize_def by (auto simp: Let_def)

lemma UpdateWindowSize_keeps_match:
  assumes "m_SwapChainFramebuffers s = swapchain_framebuffers be (backend s)"
  shows "m_SwapChainFramebuffers (snd (UpdateWindowSize pf be s)) =
         swapchain_framebuffers be (backend (snd (UpdateWindowSize pf be s)))"
proof (cases "m_NativeWindow s")
  case None
  then show ?thesis
    using assms by (simp add: UpdateWindowSize_hidden)
next
  case (Some window)
  show ?thesis
  proof (cases "ANativeWindow_getWidth pf window = 0 \<or> ANativeWindow_getHeight pf window = 0")
    case True
    with Some show ?thesis
      using assms by (simp add: UpdateWindowSize_hidden)
  next
    case False
    then have nz: "ANativeWindow_getWidth pf window \<noteq> 0" "ANativeWindow_getHeight pf window \<noteq> 0"
      by simp_all
    show ?thesis
    proof (cases "resize_requested be s (ANativeWindow_getWidth pf window)
                    (ANativeWindow_getHeight pf window)")
      case True
      show ?thesis
        by (simp add: UpdateWindowSize_resized [OF Some refl refl nz True])
    next
      case False
      show ?thesis
        using assms by (simp add: UpdateWindowSize_kept [OF Some refl refl nz False])
    qed
  qed
qed

lemma resize_events_keep_match:
  "m_SwapChainFramebuffers s = swapchain_framebuffers be (backend s) \<Longrightarrow>
   m_SwapChainFramebuffers (resize_events be s es) =
     swapchain_framebuffers be (backend (resize_events be s es))"
proof (induction es arbitrary: s)
  case Nil
  then show ?case by simp
next
  case (Cons e es)
  obtain w h where e: "e = (w, h)" by (cases e)
  show ?case
    unfolding e resize_events.simps
    by (rule Cons.IH) (rule UpdateWindowSize_keeps_match [OF Cons.prems])
qed

section \<open>Resizing: order and framebuffers\<close>

text \<open>
  C1 (as amended). When \<^verbatim>\<open>UpdateWindowSize\<close> finds a window of non-zero size and a resize
  is due, the calls are made in exactly this order: \<^verbatim>\<open>BackBufferResizing()\<close> on every
  registered pass in list order, the backend's \<^verbatim>\<open>ResizeSwapChain\<close>, then
  \<^verbatim>\<open>BackBufferResized(width, height, sampleCount)\<close> on every registered pass, and only
  then one framebuffer created for each back buffer of the resized swap chain. The passes
  are notified before the framebuffers are rebuilt, not after.
\<close>

theorem resize_sequence_order:
  assumes "m_NativeWindow s = Some window"
    and "ANativeWindow_getWidth pf window = width"
    and "ANativeWindow_getHeight pf window = height"
    and "width \<noteq> 0" and "height \<noteq> 0"
    and "resize_requested be s width height"
  shows "fst (UpdateWindowSize pf be s) =
     map EvBackBufferResizing (m_vRenderPasses s)
     @ [EvResizeSwapChain width height]
     @ map (\<lambda>p. EvBackBufferResized p width height (swapChainSampleCount (m_DeviceParams s)))
         (m_vRenderPasses s)
     @ map (\<lambda>i. EvCreateFramebuffer
               (GetBackBuffer be (backend (snd (UpdateWindowSize pf be s))) (of_nat i)))
         [0..<unat (GetBackBufferCount be (backend (snd (UpdateWindowSize pf be s))))]"
  by (simp add: UpdateWindowSize_resized [OF assms])

text \<open>C1, at a window of 800 by 600 with two passes and two back buffers.\<close>

theorem resize_sequence_order_witness:
  "fst (UpdateWindowSize (window_of_size 800 600) (fixed_backend 2 True D3D11)
         ((DeviceManager_new ())\<lparr>m_NativeWindow := Some 1, m_vRenderPasses := [1, 2 :: nat]\<rparr>)) =
     [EvBackBufferResizing 1, EvBackBufferResizing 2, EvResizeSwapChain 800 600,
      EvBackBufferResized 1 800 600 1, EvBackBufferResized 2 800 600 1,
      EvCreateFramebuffer 0, EvCreateFramebuffer 1]"
proof -
  let ?s = "(DeviceManager_new ())\<lparr>m_NativeWindow := Some 1, m_vRenderPasses := [1, 2 :: nat]\<rparr>"
  let ?pf = "window_of_size 800 600"
  let ?be = "fixed_backend 2 True D3D11"
  have win: "m_NativeWindow ?s = Some 1"
    by simp
  have w: "ANativeWindow_getWidth ?pf 1 = 800" and h: "ANativeWindow_getHeight ?pf 1 = 600"
    by (simp_all add: window_of_size_def)
  have nz: "(800 :: uint32_t) \<noteq> 0" "(600 :: uint32_t) \<noteq> 0"
    by simp_all
  have req: "resize_requested ?be ?s 800 600"
    by (simp add: resize_requested_def DeviceManager_new_def DeviceCreationParameters_default_def)
  show ?thesis
    using resize_sequence_order [OF win w h nz req]
    by (simp add: fixed_backend_def DeviceManager_new_def DeviceCreationParameters_default_def
        upt_conv_Cons)
qed

text \<open>
  C1 as stated fails: with one pass and one back buffer, the pass has received
  \<^verbatim>\<open>BackBufferResized\<close> when no framebuffer has been created yet.
\<close>

theorem resize_notifies_before_rebuild_counterexample:
  "fst (UpdateWindowSize (window_of_size 640 480) (fixed_backend 1 True D3D11)
         ((DeviceManager_new ())\<lparr>m_NativeWindow := Some 1, m_vRenderPasses := [7 :: nat]\<rparr>)) =
     [EvBackBufferResizing 7, EvResizeSwapChain 640 480, EvBackBufferResized 7 640 480 1,
      EvCreateFramebuffer 0]
   \<and> EvCreateFramebuffer 0 \<notin> set (takeWhile (\<lambda>e. e \<noteq> EvBackBufferResized 7 640 480 1)
        (fst (UpdateWindowSize (window_of_size 640 480) (fixed_backend 1 True D3D11)
         ((DeviceManager_new ())\<lparr>m_NativeWindow := Some 1, m_vRenderPasses := [7 :: nat]\<rparr>))))"
proof -
  let ?s = "(DeviceManager_new ())\<lparr>m_NativeWindow := Some 1, m_vRenderPasses := [7 :: nat]\<rparr>"
  let ?pf = "window_of_size 640 480"
  let ?be = "fixed_backend 1 True D3D11"
  have win: "m_NativeWindow ?s = Some 1"
    by simp
  have w: "ANativeWindow_getWidth ?pf 1 = 640" and h: "ANativeWindow_getHeight ?pf 1 = 480"
    by (simp_all add: window_of_size_def)
  have nz: "(640 :: uint32_t) \<noteq> 0" "(480 :: uint32_t) \<noteq> 0"
    by simp_all
  have req: "resize_requested ?be ?s 640 480"
    by (simp add: resize_requested_def DeviceManager_new_def DeviceCreationParameters_default_def)
  show ?thesis
    unfolding UpdateWindowSize_resized [OF win w h nz req] fst_conv
    by (simp add: fixed_backend_def DeviceManager_new_def DeviceCreationParameters_default_def)
qed

text \<open>
  C2. After \<^verbatim>\<open>BackBufferResized\<close> the framebuffer set has as many entries as the backend
  reports back buffers, and the entry at index \<open>i\<close> is a framebuffer over back buffer
  \<open>i\<close> of the current swap chain. Once this holds it holds after every sequence of resize
  events.
\<close>

theorem framebuffers_match_backbuffers:
  "m_SwapChainFramebuffers (snd (BackBufferResized be s)) =
     swapchain_framebuffers be (backend (snd (BackBufferResized be s)))
   \<and> length (m_SwapChainFramebuffers (snd (BackBufferResized be s))) =
       unat (GetBackBufferCount be (backend (snd (BackBufferResized be s))))
   \<and> (\<forall>i < unat (GetBackBufferCount be (backend (snd (BackBufferResized be s)))).
         m_SwapChainFramebuffers (snd (BackBufferResized be s)) ! i =
           Some (Framebuffer (GetBackBuffer be (backend (snd (BackBufferResized be s))) (of_nat i))))
   \<and> (m_SwapChainFramebuffers s = swapchain_framebuffers be (backend s) \<longrightarrow>
        m_SwapChainFramebuffers (resize_events be s es) =
          swapchain_framebuffers be (backend (resize_events be s es))
        \<and> length (m_SwapChainFramebuffers (resize_events be s es)) =
          unat (GetBackBufferCount be (backend (resize_events be s es))))"
proof -
  have len: "length (swapchain_framebuffers be b) = unat (GetBackBufferCount be b)" for b
    by (simp add: swapchain_framebuffers_def)
  have nth: "swapchain_framebuffers be b ! i = Some (Framebuffer (GetBackBuffer be b (of_nat i)))"
    if "i < unat (GetBackBufferCount be b)" for b i
    using that by (simp add: swapchain_framebuffers_def)
  show ?thesis
    by (simp add: BackBufferResized_eq len nth resize_events_keep_match)
qed

text \<open>C2, at a backend with three back buffers and two resize events.\<close>

theorem framebuffers_match_backbuffers_witness:
  "m_SwapChainFramebuffers
     (resize_events (fixed_backend 3 True VULKAN)
        (snd (BackBufferResized (fixed_backend 3 True VULKAN)
           ((DeviceManager_new ())\<lparr>m_NativeWindow := Some 1, m_vRenderPasses := [1 :: nat]\<rparr>)))
        [(1280, 720), (800, 600)]) =
     [Some (Framebuffer 0), Some (Framebuffer 1), Some (Framebuffer 2)]
   \<and> m_SwapChainFramebuffers
         (snd (BackBufferResized (fixed_backend 3 True VULKAN)
           ((DeviceManager_new ())\<lparr>m_NativeWindow := Some 1, m_vRenderPasses := [1 :: nat]\<rparr>))) ! 2
         = Some (Framebuffer 2)"
proof -
  let ?be = "fixed_backend 3 True VULKAN"
  let ?init = "(DeviceManager_new ())\<lparr>m_NativeWindow := Some 1, m_vRenderPasses := [1 :: nat]\<rparr>"
  let ?s = "snd (BackBufferResized ?be ?init)"
  have count: "unat (GetBackBufferCount ?be b) = 3" for b
    by (simp add: fixed_backend_def)
  have tex: "GetBackBuffer ?be b (of_nat i) = i" if "i < 3" for b i
    using that by (simp add: fixed_backend_def unat_of_nat)
  have fbs: "swapchain_framebuffers ?be b =
      [Some (Framebuffer 0), Some (Framebuffer 1), Some (Framebuffer 2)]" for b
    by (simp add: swapchain_framebuffers_def fixed_backend_def upt_conv_Cons)
  have match: "m_SwapChainFramebuffers ?s = swapchain_framebuffers ?be (backend ?s)"
    using framebuffers_match_backbuffers [where be = ?be and s = ?init and es = "[]"] by (elim conjE)
  have "m_SwapChainFramebuffers (resize_events ?be ?s [(1280, 720), (800, 600)]) =
        swapchain_framebuffers ?be (backend (resize_events ?be ?s [(1280, 720), (800, 600)]))"
    using framebuffers_match_backbuffers [where be = ?be and s = ?s and es = "[(1280, 720), (800, 600)]"] match
    by (elim conjE) simp
  moreover have "m_SwapChainFramebuffers ?s ! 2 = Some (Framebuffer 2)"
  proof -
    have "\<forall>i < unat (GetBackBufferCount ?be (backend ?s)).
            m_SwapChainFramebuffers ?s ! i =
              Some (Framebuffer (GetBackBuffer ?be (backend ?s) (of_nat i)))"
      using framebuffers_match_backbuffers [where be = ?be and s = ?init and es = "[]"]
      by (elim conjE)
    then show ?thesis
      by (simp add: count tex)
  qed
  ultimately show ?thesis
    by (simp only: fbs)
qed

section \<open>Input dispatch and the pass list\<close>

text \<open>
  C3 (as amended). Each of the five input events goes through the pass list from its back
  to its front: the pass at the back of the list receives it first, a pass added to the
  front last. The calls made are exactly the calls of the matching handler, one for each
  pass reached; the walk stops after the first handler that answers true, so no pass
  nearer the front is called; if no handler answers true, every registered pass is
  called, once, in reverse list order.
\<close>

theorem input_dispatch_order:
  "receivers (dispatch_input rp s e) =
      takeWhile (\<lambda>p. \<not> handler rp s e p) (rev (m_vRenderPasses s))
      @ take 1 (dropWhile (\<lambda>p. \<not> handler rp s e p) (rev (m_vRenderPasses s)))
   \<and> dispatch_input rp s e = map (handler_call s e) (receivers (dispatch_input rp s e))
   \<and> (m_vRenderPasses s \<noteq> [] \<longrightarrow>
        hd (receivers (dispatch_input rp s e)) = last (m_vRenderPasses s))
   \<and> (\<forall>p \<in> set (butlast (receivers (dispatch_input rp s e))). \<not> handler rp s e p)
   \<and> ((\<exists>p \<in> set (m_vRenderPasses s). handler rp s e p) \<longrightarrow>
        handler rp s e (last (receivers (dispatch_input rp s e))))
   \<and> ((\<forall>p \<in> set (m_vRenderPasses s). \<not> handler rp s e p) \<longrightarrow>
        receivers (dispatch_input rp s e) = rev (m_vRenderPasses s))
   \<and> (distinct (m_vRenderPasses s) \<longrightarrow> distinct (receivers (dispatch_input rp s e)))"
proof -
  note len = dispatch_input_eq [of rp s e]
  have hd: "m_vRenderPasses s \<noteq> [] \<Longrightarrow>
      hd (dispatch_loop (handler rp s e) (rev (m_vRenderPasses s))) = last (m_vRenderPasses s)"
    by (simp add: dispatch_loop_hd hd_rev)
  have lst: "\<exists>p \<in> set (m_vRenderPasses s). handler rp s e p \<Longrightarrow>
      handler rp s e (last (dispatch_loop (handler rp s e) (rev (m_vRenderPasses s))))"
    by (rule dispatch_loop_last) simp
  have none: "\<forall>p \<in> set (m_vRenderPasses s). \<not> handler rp s e p \<Longrightarrow>
      dispatch_loop (handler rp s e) (rev (m_vRenderPasses s)) = rev (m_vRenderPasses s)"
    by (rule dispatch_loop_none) simp
  have dist: "distinct (m_vRenderPasses s) \<Longrightarrow>
      distinct (dispatch_loop (handler rp s e) (rev (m_vRenderPasses s)))"
    by (rule dispatch_loop_distinct) simp
  have btl: "\<forall>p \<in> set (butlast (dispatch_loop (handler rp s e) (rev (m_vRenderPasses s)))).
      \<not> handler rp s e p"
    using dispatch_loop_butlast [of _ "handler rp s e" "rev (m_vRenderPasses s)"] by (rule ballI)
  show ?thesis
    unfolding receivers_dispatch_input
    apply (intro conjI impI)
          apply (rule dispatch_loop_takeWhile)
         apply (rule len)
        apply (erule hd)
       apply (rule btl)
      apply (erule lst)
     apply (erule none)
    apply (erule dist)
    done
qed

text \<open>C3, with three passes of which the middle one consumes, and with none consuming.\<close>

theorem input_dispatch_order_witness:
  "receivers (dispatch_input (passes_consuming (\<lambda>p. p = 2))
      ((DeviceManager_new ())\<lparr>m_vRenderPasses := [1, 2, 3 :: nat]\<rparr>) (Key 1 0 1 0)) = [3, 2]
   \<and> receivers (dispatch_input (passes_consuming (\<lambda>p. False))
      ((DeviceManager_new ())\<lparr>m_vRenderPasses := [1, 2, 3 :: nat]\<rparr>) (MouseScroll 0 1)) = [3, 2, 1]"
proof -
  let ?s = "(DeviceManager_new ())\<lparr>m_vRenderPasses := [1, 2, 3 :: nat]\<rparr>"
  let ?a = "passes_consuming (\<lambda>p. p = (2 :: nat))"
  let ?b = "passes_consuming (\<lambda>p :: nat. False)"
  have "receivers (dispatch_input ?a ?s (Key 1 0 1 0)) =
      takeWhile (\<lambda>p. \<not> handler ?a ?s (Key 1 0 1 0) p) (rev (m_vRenderPasses ?s))
      @ take 1 (dropWhile (\<lambda>p. \<not> handler ?a ?s (Key 1 0 1 0) p) (rev (m_vRenderPasses ?s)))"
    using input_dispatch_order [of ?a ?s "Key 1 0 1 0"] by (elim conjE)
  then have first: "receivers (dispatch_input ?a ?s (Key 1 0 1 0)) = [3, 2]"
    by (simp add: passes_consuming_def)
  have quiet: "\<forall>p \<in> set (m_vRenderPasses ?s). \<not> handler ?b ?s (MouseScroll 0 1) p"
    by (simp add: passes_consuming_def)
  have "receivers (dispatch_input ?b ?s (MouseScroll 0 1)) = rev (m_vRenderPasses ?s)"
    using input_dispatch_order [of ?b ?s "MouseScroll 0 1"] quiet by (elim conjE) (erule mp)
  then have second: "receivers (dispatch_input ?b ?s (MouseScroll 0 1)) = [3, 2, 1]"
    by simp
  from first second show ?thesis by (rule conjI)
qed

text \<open>
  C3 as stated fails: after three calls of \<^verbatim>\<open>AddRenderPassToFront\<close> the pass added last
  is at the front; it consumes the key event, yet the other two passes are called before it.
\<close>

theorem front_pass_not_first_counterexample:
  "m_vRenderPasses (apply_pass_ops (DeviceManager_new ()) [ToFront 3, ToFront 2, ToFront (1 :: nat)])
     = [1, 2, 3]
   \<and> KeyboardUpdate (passes_consuming (\<lambda>p. p = 1))
       (apply_pass_ops (DeviceManager_new ()) [ToFront 3, ToFront 2, ToFront (1 :: nat)]) 4 0 1 0
     = [EvKeyboardUpdate 3 4 0 1 0, EvKeyboardUpdate 2 4 0 1 0, EvKeyboardUpdate 1 4 0 1 0]"
  by (simp add: apply_pass_ops_def AddRenderPassToFront_def DeviceManager_new_def
      KeyboardUpdate_def passes_consuming_def)

text \<open>
  C4. After any sequence of \<^verbatim>\<open>AddRenderPassToFront\<close>, \<^verbatim>\<open>AddRenderPassToBack\<close> and
  \<^verbatim>\<open>RemoveRenderPass\<close> from the empty list, no pass occurs twice. Adding to the front
  leaves the pass at the front, adding to the back leaves it at the back, in both cases
  exactly once and with the other passes in their old order; removing leaves no occurrence.
\<close>

theorem render_pass_list_unique:
  fixes s :: "('p, 'b) DeviceManager" and b :: 'b
  shows "distinct (m_vRenderPasses (apply_pass_ops (DeviceManager_new b :: ('p, 'b) DeviceManager) ops))
    \<and> hd (m_vRenderPasses (snd (AddRenderPassToFront s p))) = p
    \<and> last (m_vRenderPasses (snd (AddRenderPassToBack s p))) = p
    \<and> count_list (m_vRenderPasses (snd (AddRenderPassToFront s p))) p = 1
    \<and> count_list (m_vRenderPasses (snd (AddRenderPassToBack s p))) p = 1
    \<and> tl (m_vRenderPasses (snd (AddRenderPassToFront s p))) = removeAll p (m_vRenderPasses s)
    \<and> butlast (m_vRenderPasses (snd (AddRenderPassToBack s p))) = removeAll p (m_vRenderPasses s)
    \<and> p \<notin> set (m_vRenderPasses (RemoveRenderPass s p))
    \<and> m_vRenderPasses (RemoveRenderPass s p) = removeAll p (m_vRenderPasses s)"
proof -
  have "distinct (m_vRenderPasses (DeviceManager_new b :: ('p, 'b) DeviceManager))"
    by (simp add: DeviceManager_new_def)
  then have "distinct (m_vRenderPasses (apply_pass_ops (DeviceManager_new b :: ('p, 'b) DeviceManager) ops))"
    unfolding apply_pass_ops_def by (rule distinct_foldl_pass_ops)
  moreover have "count_list (removeAll p xs) p = 0" for xs :: "'p list"
    by (induction xs) simp_all
  ultimately show ?thesis
    by (simp add: AddRenderPassToFront_def AddRenderPassToBack_def RemoveRenderPass_def)
qed

section \<open>When a resize runs\<close>

text \<open>
  C9 (as amended). For a window of non-zero size, \<^verbatim>\<open>UpdateWindowSize\<close> runs the resize
  sequence if and only if the window's size differs from the stored back buffer size, or
  the requested vsync setting differs from the stored one and the graphics API is Vulkan.
  When it runs, every pass is told of the resize and the new size is stored. When it does
  not run, no call is made and nothing but the vsync flag of the device parameters changes.
\<close>

theorem resize_trigger:
  assumes "m_NativeWindow s = Some window"
    and "ANativeWindow_getWidth pf window = width"
    and "ANativeWindow_getHeight pf window = height"
    and "width \<noteq> 0" and "height \<noteq> 0"
  shows "(EvResizeSwapChain width height \<in> set (fst (UpdateWindowSize pf be s))
          \<longleftrightarrow> backBufferWidth (m_DeviceParams s) \<noteq> width
               \<or> backBufferHeight (m_DeviceParams s) \<noteq> height
               \<or> (vsyncEnabled (m_DeviceParams s) \<noteq> m_RequestedVSync s
                   \<and> GetGraphicsAPI be (backend s) = VULKAN))
     \<and> (EvResizeSwapChain width height \<in> set (fst (UpdateWindowSize pf be s)) \<longrightarrow>
          (\<forall>p \<in> set (m_vRenderPasses s).
             EvBackBufferResizing p \<in> set (fst (UpdateWindowSize pf be s))
             \<and> EvBackBufferResized p width height (swapChainSampleCount (m_DeviceParams s))
                 \<in> set (fst (UpdateWindowSize pf be s)))
          \<and> backBufferWidth (m_DeviceParams (snd (UpdateWindowSize pf be s))) = width
          \<and> backBufferHeight (m_DeviceParams (snd (UpdateWindowSize pf be s))) = height)
     \<and> (EvResizeSwapChain width height \<notin> set (fst (UpdateWindowSize pf be s)) \<longrightarrow>
          fst (UpdateWindowSize pf be s) = []
          \<and> m_DeviceParams (snd (UpdateWindowSize pf be s)) =
              (m_DeviceParams s)\<lparr>vsyncEnabled := m_RequestedVSync s\<rparr>
          \<and> m_SwapChainFramebuffers (snd (UpdateWindowSize pf be s)) = m_SwapChainFramebuffers s
          \<and> backend (snd (UpdateWindowSize pf be s)) = backend s)
     \<and> vsyncEnabled (m_DeviceParams (snd (UpdateWindowSize pf be s))) = m_RequestedVSync s"
proof (cases "resize_requested be s width height")
  case True
  show ?thesis
    unfolding UpdateWindowSize_resized [OF assms True]
    using True by (auto simp: resize_requested_def)
next
  case False
  show ?thesis
    unfolding UpdateWindowSize_kept [OF assms False]
    using False by (auto simp: resize_requested_def)
qed

text \<open>C9, on Vulkan: a vsync change alone resizes, no change at all does not.\<close>

theorem resize_trigger_witness:
  "EvResizeSwapChain 1280 720 \<in> set (fst (UpdateWindowSize (window_of_size 1280 720)
       (fixed_backend 2 True VULKAN)
       ((DeviceManager_new ())\<lparr>m_NativeWindow := Some 1, m_vRenderPasses := [5 :: nat],
            m_RequestedVSync := True\<rparr>)))
   \<and> EvBackBufferResized 5 1280 720 1 \<in> set (fst (UpdateWindowSize (window_of_size 1280 720)
       (fixed_backend 2 True VULKAN)
       ((DeviceManager_new ())\<lparr>m_NativeWindow := Some 1, m_vRenderPasses := [5 :: nat],
            m_RequestedVSync := True\<rparr>)))
   \<and> fst (UpdateWindowSize (window_of_size 1280 720) (fixed_backend 2 True VULKAN)
       ((DeviceManager_new ())\<lparr>m_NativeWindow := Some 1, m_vRenderPasses := [5 :: nat]\<rparr>)) = []"
proof -
  let ?pf = "window_of_size 1280 720"
  let ?be = "fixed_backend 2 True VULKAN"
  let ?s = "(DeviceManager_new ())\<lparr>m_NativeWindow := Some 1, m_vRenderPasses := [5 :: nat],
            m_RequestedVSync := True\<rparr>"
  let ?t = "(DeviceManager_new ())\<lparr>m_NativeWindow := Some 1, m_vRenderPasses := [5 :: nat]\<rparr>"
  have w: "ANativeWindow_getWidth ?pf 1 = 1280" and h: "ANativeWindow_getHeight ?pf 1 = 720"
    by (simp_all add: window_of_size_def)
  have nz: "(1280 :: uint32_t) \<noteq> 0" "(720 :: uint32_t) \<noteq> 0"
    by simp_all
  have wins: "m_NativeWindow ?s = Some 1" and wint: "m_NativeWindow ?t = Some 1"
    by simp_all
  have "EvResizeSwapChain 1280 720 \<in> set (fst (UpdateWindowSize ?pf ?be ?s))
     \<and> EvBackBufferResized 5 1280 720 1 \<in> set (fst (UpdateWindowSize ?pf ?be ?s))"
    using resize_trigger [OF wins w h nz, of ?be]
    by (simp add: DeviceManager_new_def DeviceCreationParameters_default_def fixed_backend_def)
  moreover have "fst (UpdateWindowSize ?pf ?be ?t) = []"
    using resize_trigger [OF wint w h nz, of ?be]
    by (simp add: DeviceManager_new_def DeviceCreationParameters_default_def fixed_backend_def)
  ultimately show ?thesis by simp
qed

text \<open>
  C9 as stated fails: on Direct3D 11 the requested vsync setting differs from the stored
  one, and no resize sequence runs.
\<close>

theorem vsync_change_without_resize_counterexample:
  "vsyncEnabled (m_DeviceParams ((DeviceManager_new ())\<lparr>m_NativeWindow := Some 1,
       m_vRenderPasses := [5 :: nat], m_RequestedVSync := True\<rparr>))
     \<noteq> m_RequestedVSync ((DeviceManager_new () :: (nat, unit) DeviceManager)\<lparr>m_NativeWindow := Some 1,
       m_vRenderPasses := [5 :: nat], m_RequestedVSync := True\<rparr>)
   \<and> fst (UpdateWindowSize (window_of_size 1280 720) (fixed_backend 2 True D3D11)
       ((DeviceManager_new ())\<lparr>m_NativeWindow := Some 1, m_vRenderPasses := [5 :: nat],
            m_RequestedVSync := True\<rparr>)) = []"
proof -
  let ?pf = "window_of_size 1280 720"
  let ?be = "fixed_backend 2 True D3D11"
  let ?s = "(DeviceManager_new ())\<lparr>m_NativeWindow := Some 1, m_vRenderPasses := [5 :: nat],
            m_RequestedVSync := True\<rparr>"
  have w: "ANativeWindow_getWidth ?pf 1 = 1280" and h: "ANativeWindow_getHeight ?pf 1 = 720"
    by (simp_all add: window_of_size_def)
  have nz: "(1280 :: uint32_t) \<noteq> 0" "(720 :: uint32_t) \<noteq> 0"
    by simp_all
  have win: "m_NativeWindow ?s = Some 1"
    by simp
  have req: "\<not> resize_requested ?be ?s 1280 720"
    by (simp add: resize_requested_def DeviceManager_new_def DeviceCreationParameters_default_def
        fixed_backend_def)
  show ?thesis
    unfolding UpdateWindowSize_kept [OF win w h nz req] fst_conv
    by (simp add: DeviceManager_new_def DeviceCreationParameters_default_def)
qed

section \<open>Reading framebuffers\<close>

text \<open>
  C10. \<^verbatim>\<open>GetFramebuffer\<close> returns the stored handle for an index below the size of the
  framebuffer vector and null otherwise, and never reads the vector out of range, also
  when the vector is empty after \<^verbatim>\<open>Shutdown\<close> or \<^verbatim>\<open>BackBufferResizing\<close>.
  \<^verbatim>\<open>GetCurrentFramebuffer\<close> is \<^verbatim>\<open>GetFramebuffer\<close> at the current back buffer index.
\<close>

theorem GetFramebuffer_guarded:
  "GetFramebuffer s index =
      Inr (if unat index < length (m_SwapChainFramebuffers s)
           then m_SwapChainFramebuffers s ! unat index else None)
   \<and> GetFramebuffer s index \<noteq> Inl OutOfRange
   \<and> GetFramebuffer (Shutdown be s) index = Inr None
   \<and> GetFramebuffer (snd (BackBufferResizing s)) index = Inr None
   \<and> GetCurrentFramebuffer be s = GetFramebuffer s (GetCurrentBackBufferIndex be (backend s))"
  by (simp add: GetFramebuffer_def GetCurrentFramebuffer_def vector_at_def Shutdown_def
      BackBufferResizing_def)

section \<open>Auxiliary facts about ticks, creation and the frame time\<close>

lemma bitlen_eqI: "0 < n \<Longrightarrow> 2 ^ (nat n - 1) \<le> x \<Longrightarrow> x < 2 ^ nat n \<Longrightarrow> bitlen x = n"
  by (intro antisym) (auto simp: bitlen_le_iff_power bitlen_ge_iff_power)

lemma pow2_pos: "0 < pow2 e"
  by (simp add: pow2_def)

lemma ilog2_eqI:
  assumes lo: "pow2 e \<le> a" and hi: "a < pow2 (e + 1)"
  shows "ilog2 a = e"
proof (cases "0 \<le> e")
  case True
  from lo True have lo': "2 ^ nat e \<le> a"
    by (simp add: pow2_def)
  have "(1 :: real) \<le> 2 ^ nat e"
    by (rule one_le_power) simp
  with lo' have a1: "1 \<le> a"
    by linarith
  from hi True have hi': "a < 2 ^ nat (e + 1)"
    by (simp add: pow2_def)
  have "bitlen \<lfloor>a\<rfloor> = e + 1"
  proof (rule bitlen_eqI)
    show "0 < e + 1" using True by simp
    have "real_of_int (2 ^ nat e) \<le> a" using lo' by simp
    then have "2 ^ nat e \<le> \<lfloor>a\<rfloor>" by (simp only: le_floor_iff)
    moreover have "nat (e + 1) - 1 = nat e" using True by simp
    ultimately show "2 ^ (nat (e + 1) - 1) \<le> \<lfloor>a\<rfloor>" by simp
    have "a < real_of_int (2 ^ nat (e + 1))" using hi' by simp
    then show "\<lfloor>a\<rfloor> < 2 ^ nat (e + 1)" by (simp only: floor_less_iff)
  qed
  with a1 show ?thesis by (simp add: ilog2_def)
next
  case False
  define k where "k = nat (- e)"
  from False have k: "0 < k" and e: "e = - int k"
    by (simp_all add: k_def)
  from lo have lo': "1 / 2 ^ k \<le> a"
    using False by (simp add: pow2_def k_def)
  have p1: "pow2 (e + 1) = 1 / 2 ^ (k - 1)"
  proof (cases "e + 1 = 0")
    case True
    then have "k = 1" by (simp add: k_def)
    with True show ?thesis by (simp add: pow2_def)
  next
    case ne: False
    with False have "e + 1 < 0" by simp
    moreover from this have "nat (- (e + 1)) = k - 1" by (simp add: k_def)
    ultimately show ?thesis by (simp add: pow2_def)
  qed
  from hi have hi': "a < 1 / 2 ^ (k - 1)"
    by (simp add: p1)
  have pos: "0 < a"
    using lo pow2_pos [of e] by simp
  have lt1: "a < 1"
  proof -
    have "1 / 2 ^ (k - 1) \<le> (1 :: real)" by simp
    with hi' show ?thesis by linarith
  qed
  have up: "1 / a \<le> 2 ^ k"
    using lo' pos by (simp add: field_simps)
  have down: "2 ^ (k - 1) < 1 / a"
    using hi' pos by (simp add: field_simps)
  have "bitlen (\<lceil>1 / a\<rceil> - 1) = int k"
  proof (rule bitlen_eqI)
    show "0 < int k" using k by simp
    have "real_of_int (2 ^ (k - 1)) < 1 / a" using down by simp
    then have "2 ^ (k - 1) < \<lceil>1 / a\<rceil>" by (simp only: less_ceiling_iff)
    then show "2 ^ (nat (int k) - 1) \<le> \<lceil>1 / a\<rceil> - 1" by simp
    have "1 / a \<le> real_of_int (2 ^ k)" using up by simp
    then have "\<lceil>1 / a\<rceil> \<le> 2 ^ k" by (simp only: ceiling_le_iff)
    then show "\<lceil>1 / a\<rceil> - 1 < 2 ^ nat (int k)" by simp
  qed
  with lt1 e show ?thesis by (simp add: ilog2_def)
qed

lemma round_to_double_in_binade:
  assumes lo: "pow2 e \<le> x" and hi: "x < pow2 (e + 1)" and e: "- 1022 \<le> e"
  shows "round_to_double x =
     (if pow2 1024 \<le> of_int (round_half_even (x / pow2 (e - 52))) * pow2 (e - 52)
      then PlusInfinity
      else Finite (of_int (round_half_even (x / pow2 (e - 52))) * pow2 (e - 52)))"
proof -
  have pos: "0 < x" using lo pow2_pos [of e] by simp
  then have "ilog2 \<bar>x\<bar> = e" using ilog2_eqI [OF lo hi] by simp
  with pos e show ?thesis
    by (simp add: round_to_double_def Let_def max_def)
qed

lemma round_half_even_of_int: "round_half_even (of_int m) = m"
  by (simp add: round_half_even_def)

lemma round_half: "round_to_double (1 / 2) = Finite (1 / 2)"
  by (subst round_to_double_in_binade [where e = "- 1"])
     (simp_all add: pow2_def round_half_even_def)

lemma round_tenth: "round_to_double (1 / 10) = Finite (3602879701896397 / 2 ^ 55)"
  by (subst round_to_double_in_binade [where e = "- 4"])
     (simp_all add: pow2_def round_half_even_def)

lemma round_two_fifths: "round_to_double (2 / 5) = Finite (3602879701896397 / 2 ^ 53)"
  by (subst round_to_double_in_binade [where e = "- 2"])
     (simp_all add: pow2_def round_half_even_def)

lemma two_fifths_plus_tenth: "fadd (round_to_double (2 / 5)) (round_to_double (1 / 10)) = Finite (1 / 2)"
  unfolding round_tenth round_two_fifths fadd.simps
  by (subst round_to_double_in_binade [where e = "- 1"])
     (simp_all add: pow2_def round_half_even_def)

lemma round_quarter: "round_to_double (1 / 4) = Finite (1 / 4)"
  by (subst round_to_double_in_binade [where e = "- 2"])
     (simp_all add: pow2_def round_half_even_def)

lemma round_three_quarters: "round_to_double (3 / 4) = Finite (3 / 4)"
  by (subst round_to_double_in_binade [where e = "- 1"])
     (simp_all add: pow2_def round_half_even_def)

lemma UpdateAverageFrameTime_over:
  "0 \<le> m_NumberOfAccumulatedFrames s \<Longrightarrow> m_NumberOfAccumulatedFrames s < INT_MAX \<Longrightarrow>
   fgt (fadd (m_FrameTimeSum s) e) (m_AverageTimeUpdateInterval s) \<Longrightarrow>
   UpdateAverageFrameTime s e =
     Inr (s\<lparr>m_AverageFrameTime :=
               fdiv_int (fadd (m_FrameTimeSum s) e) (m_NumberOfAccumulatedFrames s + 1),
             m_FrameTimeSum := Finite 0, m_NumberOfAccumulatedFrames := 0\<rparr>)"
  by (simp add: UpdateAverageFrameTime_def Let_def)

lemma UpdateAverageFrameTime_under:
  "m_NumberOfAccumulatedFrames s < INT_MAX \<Longrightarrow>
   \<not> fgt (fadd (m_FrameTimeSum s) e) (m_AverageTimeUpdateInterval s) \<Longrightarrow>
   UpdateAverageFrameTime s e =
     Inr (s\<lparr>m_FrameTimeSum := fadd (m_FrameTimeSum s) e,
             m_NumberOfAccumulatedFrames := m_NumberOfAccumulatedFrames s + 1\<rparr>)"
  by (simp add: UpdateAverageFrameTime_def Let_def)

lemma UpdateAverageFrameTime_overflow:
  "INT_MAX \<le> m_NumberOfAccumulatedFrames s \<Longrightarrow> UpdateAverageFrameTime s e = Inl SignedOverflow"
  by (simp add: UpdateAverageFrameTime_def)

lemma UpdateAverageFrameTime_returns:
  "m_NumberOfAccumulatedFrames s < INT_MAX \<Longrightarrow>
   \<exists>s'. UpdateAverageFrameTime s e = Inr s' \<and> m_FrameIndex s' = m_FrameIndex s"
  by (simp add: UpdateAverageFrameTime_def Let_def)

lemma feed_snoc:
  "feed s (es @ [e]) = (case feed s es of Inl x \<Rightarrow> Inl x | Inr s' \<Rightarrow> UpdateAverageFrameTime s' e)"
  by (induction es arbitrary: s) (auto split: sum.splits)

lemma feed_accumulates:
  "\<forall>k \<in> {1..length es}.
      \<not> fgt (foldl fadd (m_FrameTimeSum s) (take k es)) (m_AverageTimeUpdateInterval s) \<Longrightarrow>
   m_NumberOfAccumulatedFrames s + int (length es) \<le> INT_MAX \<Longrightarrow>
   feed s es =
     Inr (s\<lparr>m_FrameTimeSum := foldl fadd (m_FrameTimeSum s) es,
             m_NumberOfAccumulatedFrames := m_NumberOfAccumulatedFrames s + int (length es)\<rparr>)"
proof (induction es rule: rev_induct)
  case Nil
  show ?case by simp
next
  case (snoc e es)
  have pre: "\<forall>k \<in> {1..length es}.
      \<not> fgt (foldl fadd (m_FrameTimeSum s) (take k es)) (m_AverageTimeUpdateInterval s)"
  proof
    fix k assume "k \<in> {1..length es}"
    then show "\<not> fgt (foldl fadd (m_FrameTimeSum s) (take k es)) (m_AverageTimeUpdateInterval s)"
      using snoc.prems(1) [rule_format, of k] by simp
  qed
  have room: "m_NumberOfAccumulatedFrames s + int (length es) \<le> INT_MAX"
    and last: "m_NumberOfAccumulatedFrames s + int (length es) < INT_MAX"
    using snoc.prems(2) by simp_all
  have whole: "\<not> fgt (fadd (foldl fadd (m_FrameTimeSum s) es) e) (m_AverageTimeUpdateInterval s)"
    using snoc.prems(1) [rule_format, of "Suc (length es)"] by simp
  show ?case
    unfolding feed_snoc snoc.IH [OF pre room]
    using whole last by (simp add: UpdateAverageFrameTime_under)
qed

lemma ARP_inactive:
  "\<not> window_active rp s \<Longrightarrow>
   AnimateRenderPresent rp be curTime s =
     finish_tick curTime (curTime - m_PreviousFrameTimestamp s) [] s"
  by (auto simp add: AnimateRenderPresent_def window_active_def Let_def)

lemma ARP_skipped:
  "window_active rp s \<Longrightarrow> m_SkipRenderOnFirstFrame s \<Longrightarrow> m_FrameIndex s = 0 \<Longrightarrow>
   AnimateRenderPresent rp be curTime s =
     finish_tick curTime (curTime - m_PreviousFrameTimestamp s)
            (animate_events s (curTime - m_PreviousFrameTimestamp s)) (scale_checked s)"
  by (simp add: AnimateRenderPresent_def window_active_def Let_def scale_checked_def
      animate_events_def Animate_def DisplayScaleChanged_def)

lemma ARP_not_begun:
  "window_active rp s \<Longrightarrow> m_FrameIndex s \<noteq> 0 \<or> \<not> m_SkipRenderOnFirstFrame s \<Longrightarrow>
   BeginFrame be (m_DeviceParams s) (backend s) = (False, b2) \<Longrightarrow>
   AnimateRenderPresent rp be curTime s =
     finish_tick curTime (curTime - m_PreviousFrameTimestamp s)
            (animate_events s (curTime - m_PreviousFrameTimestamp s) @ [EvBeginFrame False])
            ((scale_checked s)\<lparr>backend := b2\<rparr>)"
  by (auto simp add: AnimateRenderPresent_def window_active_def Let_def scale_checked_def
      animate_events_def Animate_def DisplayScaleChanged_def word_greater_zero_iff)

lemma ARP_undefined:
  "window_active rp s \<Longrightarrow> m_FrameIndex s \<noteq> 0 \<or> \<not> m_SkipRenderOnFirstFrame s \<Longrightarrow>
   BeginFrame be (m_DeviceParams s) (backend s) = (True, b2) \<Longrightarrow>
   Render be (s\<lparr>backend := b2\<rparr>) = Inl e \<Longrightarrow>
   AnimateRenderPresent rp be curTime s = Inl e"
  by (auto simp add: AnimateRenderPresent_def window_active_def Let_def scale_checked_def
      animate_events_def Animate_def DisplayScaleChanged_def word_greater_zero_iff Render_def
      split: sum.splits)

lemma ARP_rendered:
  "window_active rp s \<Longrightarrow> m_FrameIndex s \<noteq> 0 \<or> \<not> m_SkipRenderOnFirstFrame s \<Longrightarrow>
   BeginFrame be (m_DeviceParams s) (backend s) = (True, b2) \<Longrightarrow>
   Render be (s\<lparr>backend := b2\<rparr>) = Inr ev_render \<Longrightarrow>
   Present be (m_DeviceParams s) b2 = (presentSuccess, b3) \<Longrightarrow>
   AnimateRenderPresent rp be curTime s =
     (if \<not> presentSuccess
      then Inr (False,
                animate_events s (curTime - m_PreviousFrameTimestamp s)
                @ frame_events s ev_render presentSuccess,
                (scale_checked s)\<lparr>backend := b3\<rparr>)
      else finish_tick curTime (curTime - m_PreviousFrameTimestamp s)
                  (animate_events s (curTime - m_PreviousFrameTimestamp s)
                   @ frame_events s ev_render presentSuccess)
                  ((scale_checked s)\<lparr>backend := b3\<rparr>))"
  by (auto simp add: AnimateRenderPresent_def window_active_def Let_def scale_checked_def
      animate_events_def Animate_def DisplayScaleChanged_def word_greater_zero_iff Render_def
      frame_events_def split: sum.splits)

lemma finish_tick_eq:
  "finish_tick curTime elapsedTime ev s = Inr (ok, ev', s') \<Longrightarrow>
   ok \<and> ev' = ev @ [EvRunGarbageCollection] \<and> m_FrameIndex s' = m_FrameIndex s + 1"
  by (auto simp: finish_tick_def UpdateAverageFrameTime_def Let_def split: sum.splits if_splits)

lemma finish_tick_returns:
  "m_NumberOfAccumulatedFrames s < INT_MAX \<Longrightarrow> \<exists>r. finish_tick curTime elapsedTime ev s = Inr r"
  using UpdateAverageFrameTime_returns [of s "round_to_double elapsedTime"]
  by (auto simp: finish_tick_def)

lemma m_FrameIndex_scale_checked: "m_FrameIndex (scale_checked s) = m_FrameIndex s"
  by (simp add: scale_checked_def)

lemma ARP_cases [consumes 1, case_names inactive skipped not_begun rendered]:
  assumes run: "AnimateRenderPresent rp be curTime s = Inr (ok, ev, s')"
  obtains
    (inactive) "\<not> window_active rp s" "ok" "ev = [EvRunGarbageCollection]"
      "m_FrameIndex s' = m_FrameIndex s + 1"
  | (skipped) "window_active rp s" "m_SkipRenderOnFirstFrame s" "m_FrameIndex s = 0" "ok"
      "ev = animate_events s (curTime - m_PreviousFrameTimestamp s) @ [EvRunGarbageCollection]"
      "m_FrameIndex s' = m_FrameIndex s + 1"
  | (not_begun) "window_active rp s" "m_FrameIndex s \<noteq> 0 \<or> \<not> m_SkipRenderOnFirstFrame s"
      "\<not> fst (BeginFrame be (m_DeviceParams s) (backend s))" "ok"
      "ev = animate_events s (curTime - m_PreviousFrameTimestamp s)
            @ [EvBeginFrame False, EvRunGarbageCollection]"
  | (rendered) b2 ev_render where "window_active rp s"
      "m_FrameIndex s \<noteq> 0 \<or> \<not> m_SkipRenderOnFirstFrame s"
      "BeginFrame be (m_DeviceParams s) (backend s) = (True, b2)"
      "Render be (s\<lparr>backend := b2\<rparr>) = Inr ev_render"
      "ok = fst (Present be (m_DeviceParams s) b2)"
      "ev = animate_events s (curTime - m_PreviousFrameTimestamp s)
            @ frame_events s ev_render ok
            @ (if ok then [EvRunGarbageCollection] else [])"
proof (cases "window_active rp s")
  case False
  from run have "finish_tick curTime (curTime - m_PreviousFrameTimestamp s) [] s = Inr (ok, ev, s')"
    by (simp add: ARP_inactive [OF False])
  from finish_tick_eq [OF this] False show ?thesis
    by (intro inactive) simp_all
next
  case True
  show ?thesis
  proof (cases "m_SkipRenderOnFirstFrame s \<and> m_FrameIndex s = 0")
    case skip: True
    then have sk: "m_SkipRenderOnFirstFrame s" and z: "m_FrameIndex s = 0"
      by simp_all
    from run have "finish_tick curTime (curTime - m_PreviousFrameTimestamp s)
        (animate_events s (curTime - m_PreviousFrameTimestamp s)) (scale_checked s) = Inr (ok, ev, s')"
      by (simp add: ARP_skipped [OF True sk z])
    from finish_tick_eq [OF this] True sk z show ?thesis
      by (intro skipped) (simp_all add: m_FrameIndex_scale_checked)
  next
    case False
    then have go: "m_FrameIndex s \<noteq> 0 \<or> \<not> m_SkipRenderOnFirstFrame s"
      by auto
    obtain began b2 where bf: "BeginFrame be (m_DeviceParams s) (backend s) = (began, b2)"
      by (cases "BeginFrame be (m_DeviceParams s) (backend s)")
    show ?thesis
    proof (cases began)
      case nb: False
      with bf have bf': "BeginFrame be (m_DeviceParams s) (backend s) = (False, b2)"
        by simp
      from run have "finish_tick curTime (curTime - m_PreviousFrameTimestamp s)
          (animate_events s (curTime - m_PreviousFrameTimestamp s) @ [EvBeginFrame False])
          ((scale_checked s)\<lparr>backend := b2\<rparr>) = Inr (ok, ev, s')"
        by (simp add: ARP_not_begun [OF True go bf'])
      from finish_tick_eq [OF this] True go bf' show ?thesis
        by (intro not_begun) simp_all
    next
      case b: True
      with bf have bf': "BeginFrame be (m_DeviceParams s) (backend s) = (True, b2)"
        by simp
      show ?thesis
      proof (cases "Render be (s\<lparr>backend := b2\<rparr>)")
        case (Inl e)
        from run show ?thesis
          by (simp add: ARP_undefined [OF True go bf' Inl])
      next
        case (Inr ev_render)
        obtain presentSuccess b3 where pr: "Present be (m_DeviceParams s) b2 = (presentSuccess, b3)"
          by (cases "Present be (m_DeviceParams s) b2")
        note shape = ARP_rendered [OF True go bf' Inr pr, of curTime]
        show ?thesis
        proof (cases presentSuccess)
          case ps: True
          from run shape ps have "finish_tick curTime (curTime - m_PreviousFrameTimestamp s)
              (animate_events s (curTime - m_PreviousFrameTimestamp s)
               @ frame_events s ev_render presentSuccess)
              ((scale_checked s)\<lparr>backend := b3\<rparr>) = Inr (ok, ev, s')"
            by simp
          from finish_tick_eq [OF this] ps pr True go bf' Inr show ?thesis
            by (intro rendered [of b2 ev_render]) simp_all
        next
          case pf: False
          from run shape pf have "ok = False"
            and "ev = animate_events s (curTime - m_PreviousFrameTimestamp s)
                      @ frame_events s ev_render presentSuccess"
            by simp_all
          with pf pr True go bf' Inr show ?thesis
            by (intro rendered [of b2 ev_render]) simp_all
        qed
      qed
    qed
  qed
qed

lemma in_call_hook: "e \<in> set (call_hook r h i) \<longleftrightarrow> r \<and> e = EvHook h i"
  by (auto simp: call_hook_def)

lemma in_Animate:
  "e \<in> set (Animate s t) \<longleftrightarrow>
     (\<exists>p \<in> set (m_vRenderPasses s). e = EvAnimate p t \<or> e = EvSetLatewarpOptions p)"
  by (auto simp: Animate_def)

lemma in_DisplayScaleChanged:
  "e \<in> set (DisplayScaleChanged s) \<longleftrightarrow>
     (\<exists>p \<in> set (m_vRenderPasses s).
        e = EvDisplayScaleChanged p (m_DPIScaleFactorX s) (m_DPIScaleFactorY s))"
  by (auto simp: DisplayScaleChanged_def)

lemma in_animate_events:
  "e \<in> set (animate_events s t) \<longleftrightarrow>
     ((m_PrevDPIScaleFactorX s \<noteq> m_DPIScaleFactorX s \<or> m_PrevDPIScaleFactorY s \<noteq> m_DPIScaleFactorY s)
        \<and> e \<in> set (DisplayScaleChanged s))
     \<or> (beforeAnimate (m_callbacks s) \<and> e = EvHook BeforeAnimate (m_FrameIndex s))
     \<or> e \<in> set (Animate s t)
     \<or> (afterAnimate (m_callbacks s) \<and> e = EvHook AfterAnimate (m_FrameIndex s))"
  by (auto simp: animate_events_def in_call_hook)

lemma Render_events:
  "Render be s = Inr ev \<Longrightarrow> \<exists>fb. ev = map (\<lambda>p. EvRender p fb) (m_vRenderPasses s)"
  by (auto simp: Render_def split: sum.splits)

lemma in_frame_events:
  "e \<in> set (frame_events s ev_render r) \<longleftrightarrow>
     e = EvBeginFrame True
     \<or> (beforeRender (m_callbacks s) \<and> e = EvHook BeforeRender
           (if m_SkipRenderOnFirstFrame s then m_FrameIndex s - 1 else m_FrameIndex s))
     \<or> e \<in> set ev_render
     \<or> (afterRender (m_callbacks s) \<and> e = EvHook AfterRender
           (if m_SkipRenderOnFirstFrame s then m_FrameIndex s - 1 else m_FrameIndex s))
     \<or> (beforePresent (m_callbacks s) \<and> e = EvHook BeforePresent
           (if m_SkipRenderOnFirstFrame s then m_FrameIndex s - 1 else m_FrameIndex s))
     \<or> e = EvPresent r
     \<or> (afterPresent (m_callbacks s) \<and> e = EvHook AfterPresent
           (if m_SkipRenderOnFirstFrame s then m_FrameIndex s - 1 else m_FrameIndex s))"
  unfolding frame_events_def Let_def by (simp add: in_call_hook) blast

lemma animate_events_not_render_stage: "e \<in> set (animate_events s t) \<Longrightarrow> \<not> render_stage e"
  by (auto simp: in_animate_events in_Animate in_DisplayScaleChanged)

lemma hook_in_animate_events:
  "EvHook h i \<in> set (animate_events s t) \<Longrightarrow> i = m_FrameIndex s \<and> \<not> render_hook h"
  by (auto simp: in_animate_events in_Animate in_DisplayScaleChanged)

lemma hook_in_frame_events:
  "Render be s2 = Inr ev_render \<Longrightarrow> EvHook h i \<in> set (frame_events s ev_render r) \<Longrightarrow>
   i = (if m_SkipRenderOnFirstFrame s then m_FrameIndex s - 1 else m_FrameIndex s) \<and> render_hook h"
  by (drule Render_events) (auto simp: in_frame_events)

lemma present_in_frame_events:
  "Render be s2 = Inr ev_render \<Longrightarrow> EvPresent b \<in> set (frame_events s ev_render r) \<longleftrightarrow> b = r"
  by (drule Render_events) (auto simp: in_frame_events)

lemma present_not_in_animate_events: "EvPresent b \<notin> set (animate_events s t)"
  by (auto simp: in_animate_events in_Animate in_DisplayScaleChanged)

lemma present_failed_iff:
  assumes "AnimateRenderPresent rp be curTime s = Inr (ok, ev, s')"
  shows "EvPresent False \<in> set ev \<longleftrightarrow> \<not> ok"
  using assms
proof (cases rule: ARP_cases)
  case inactive
  then show ?thesis by simp
next
  case skipped
  then show ?thesis by (simp add: present_not_in_animate_events)
next
  case not_begun
  then show ?thesis by (simp add: present_not_in_animate_events)
next
  case (rendered b2 ev_render)
  then show ?thesis
    by (simp add: present_not_in_animate_events present_in_frame_events [OF rendered(4)])
qed

lemma CreateInstance_keeps:
  "CreateInstance be s (m_DeviceParams s) = (ok, s') \<Longrightarrow>
   m_vRenderPasses s' = m_vRenderPasses s \<and> m_DeviceParams s' = m_DeviceParams s
   \<and> m_RequestedVSync s' = m_RequestedVSync s"
  by (auto simp: CreateInstance_def Let_def split: if_splits prod.splits)

lemma resize_requested_initial:
  "backBufferWidth (m_DeviceParams s) = 0 \<Longrightarrow> width \<noteq> 0 \<Longrightarrow> resize_requested be s width height"
  by (auto simp: resize_requested_def)

lemma unat_pred: "(i :: uint32_t) \<noteq> 0 \<Longrightarrow> Suc (unat (i - 1)) = unat i"
  by unat_arith

lemma prepend_prepend: "prepend a (prepend b r) = prepend (a @ b) r"
  by (auto simp: prepend_def split: option.splits sum.splits)

lemma prepend_Nil: "prepend [] r = r"
  by (auto simp: prepend_def split: option.splits sum.splits)

lemma message_loop_append:
  "loop_through rp be pre s = Some (ev0, s1) \<Longrightarrow>
   message_loop rp be (pre @ rest) s = prepend ev0 (message_loop rp be rest s1)"
proof (induction pre arbitrary: s ev0)
  case Nil
  then show ?case by (simp add: prepend_Nil)
next
  case (Cons t pre)
  obtain ev_p s2 where polled: "process_events t s = (ev_p, s2)"
    by (cases "process_events t s")
  from Cons.prems have live: "\<not> destroyRequested t"
    by (auto split: if_splits)
  show ?case
  proof (cases "m_windowVisible s2")
    case False
    with Cons.prems live polled obtain ev' where
      rest: "loop_through rp be pre s2 = Some (ev', s1)" and ev0: "ev0 = ev_p @ ev'"
      by auto
    show ?thesis
      using live polled False by (simp add: Cons.IH [OF rest] ev0 prepend_prepend)
  next
    case True
    with Cons.prems live polled obtain ev s3 ev' where
      tick: "AnimateRenderPresent rp be (clock t) s2 = Inr (True, ev, s3)"
      and rest: "loop_through rp be pre s3 = Some (ev', s1)" and ev0: "ev0 = ev_p @ ev @ ev'"
      by (auto split: sum.splits if_splits)
    show ?thesis
      using live polled True tick by (simp add: Cons.IH [OF rest] ev0 prepend_prepend)
  qed
qed

lemma running_manager_simps:
  "m_windowVisible running_manager" "m_windowIsInFocus running_manager"
  "m_vRenderPasses running_manager = [1]" "m_FrameIndex running_manager = 0"
  "m_SwapChainFramebuffers running_manager = [Some (Framebuffer 0)]"
  "m_PreviousFrameTimestamp running_manager = 0"
  "m_DPIScaleFactorX running_manager = 1" "m_DPIScaleFactorY running_manager = 1"
  "m_PrevDPIScaleFactorX running_manager = 0" "m_PrevDPIScaleFactorY running_manager = 0"
  "\<not> m_SkipRenderOnFirstFrame running_manager"
  "m_callbacks running_manager = PipelineCallbacks_default"
  by (simp_all add: running_manager_def DeviceManager_new_def)

lemma fixed_backend_simps:
  "BeginFrame (fixed_backend n r api) params b = (True, b)"
  "Present (fixed_backend n r api) params b = (r, b)"
  "GetCurrentBackBufferIndex (fixed_backend n r api) b = 0"
  by (simp_all add: fixed_backend_def)

section \<open>The average frame time\<close>

text \<open>
  Two values at which rounding and the range of the counter decide: the doubles nearest to
  0.4 and 0.1 add up to exactly one half, which is not greater than the default interval,
  so nothing is published; and at \<^verbatim>\<open>INT_MAX\<close> accumulated frames the next call is undefined.
\<close>

lemma rounded_sum_not_over_interval:
  "UpdateAverageFrameTime
     ((DeviceManager_new () :: (nat, unit) DeviceManager)\<lparr>m_FrameTimeSum := round_to_double (2 / 5),
        m_NumberOfAccumulatedFrames := 1\<rparr>) (round_to_double (1 / 10)) =
   Inr ((DeviceManager_new ())\<lparr>m_FrameTimeSum := Finite (1 / 2), m_NumberOfAccumulatedFrames := 2\<rparr>)"
  by (subst UpdateAverageFrameTime_under)
     (simp_all add: two_fifths_plus_tenth DeviceManager_new_def INT_MAX_def)

lemma counter_overflow_undefined:
  "UpdateAverageFrameTime (s\<lparr>m_NumberOfAccumulatedFrames := INT_MAX\<rparr>) e = Inl SignedOverflow"
  by (simp add: UpdateAverageFrameTime_overflow)

text \<open>
  C5 (as amended). As long as the 32-bit frame counter does not overflow,
  \<^verbatim>\<open>UpdateAverageFrameTime\<close> adds the elapsed time and one frame to the accumulators on
  every call, in double arithmetic. The published average changes only when the
  accumulated time is strictly greater than the configured interval; it is then the
  accumulated time divided by the number of accumulated frames, and both accumulators are
  reset to zero. Otherwise the average is unchanged, also when the accumulated time equals
  the interval. Fed, from empty accumulators, elapsed times whose running sums are not
  greater than the interval and then one that takes the sum over it, the average becomes
  the sum of all of them, as accumulated, divided by their number. The frame counter is
  taken to be non-negative, as it is from its initial value on.
\<close>

theorem average_frame_time_update:
  assumes "0 \<le> m_NumberOfAccumulatedFrames s"
    and "m_NumberOfAccumulatedFrames s < INT_MAX"
  shows "(fgt (fadd (m_FrameTimeSum s) e) (m_AverageTimeUpdateInterval s) \<longrightarrow>
            UpdateAverageFrameTime s e =
              Inr (s\<lparr>m_AverageFrameTime :=
                        fdiv_int (fadd (m_FrameTimeSum s) e) (m_NumberOfAccumulatedFrames s + 1),
                      m_FrameTimeSum := Finite 0, m_NumberOfAccumulatedFrames := 0\<rparr>))
     \<and> (\<not> fgt (fadd (m_FrameTimeSum s) e) (m_AverageTimeUpdateInterval s) \<longrightarrow>
            UpdateAverageFrameTime s e =
              Inr (s\<lparr>m_FrameTimeSum := fadd (m_FrameTimeSum s) e,
                      m_NumberOfAccumulatedFrames := m_NumberOfAccumulatedFrames s + 1\<rparr>))
     \<and> (m_FrameTimeSum s = Finite 0 \<and> m_NumberOfAccumulatedFrames s = 0
          \<and> int (length es) < INT_MAX
          \<and> (\<forall>k \<in> {1..length es}.
                \<not> fgt (accumulated (take k es)) (m_AverageTimeUpdateInterval s))
          \<and> fgt (accumulated (es @ [e])) (m_AverageTimeUpdateInterval s) \<longrightarrow>
            feed s es =
              Inr (s\<lparr>m_FrameTimeSum := accumulated es,
                      m_NumberOfAccumulatedFrames := int (length es)\<rparr>)
            \<and> feed s (es @ [e]) =
              Inr (s\<lparr>m_AverageFrameTime :=
                        fdiv_int (accumulated (es @ [e])) (int (length (es @ [e]))),
                      m_FrameTimeSum := Finite 0, m_NumberOfAccumulatedFrames := 0\<rparr>))"
proof -
  have over: "fgt (fadd (m_FrameTimeSum s) e) (m_AverageTimeUpdateInterval s) \<longrightarrow>
            UpdateAverageFrameTime s e =
              Inr (s\<lparr>m_AverageFrameTime :=
                        fdiv_int (fadd (m_FrameTimeSum s) e) (m_NumberOfAccumulatedFrames s + 1),
                      m_FrameTimeSum := Finite 0, m_NumberOfAccumulatedFrames := 0\<rparr>)"
    using assms by (simp add: UpdateAverageFrameTime_over)
  have under: "\<not> fgt (fadd (m_FrameTimeSum s) e) (m_AverageTimeUpdateInterval s) \<longrightarrow>
            UpdateAverageFrameTime s e =
              Inr (s\<lparr>m_FrameTimeSum := fadd (m_FrameTimeSum s) e,
                      m_NumberOfAccumulatedFrames := m_NumberOfAccumulatedFrames s + 1\<rparr>)"
    using assms by (simp add: UpdateAverageFrameTime_under)
  have run: "feed s es =
              Inr (s\<lparr>m_FrameTimeSum := accumulated es,
                      m_NumberOfAccumulatedFrames := int (length es)\<rparr>)
            \<and> feed s (es @ [e]) =
              Inr (s\<lparr>m_AverageFrameTime :=
                        fdiv_int (accumulated (es @ [e])) (int (length (es @ [e]))),
                      m_FrameTimeSum := Finite 0, m_NumberOfAccumulatedFrames := 0\<rparr>)"
    if z: "m_FrameTimeSum s = Finite 0" "m_NumberOfAccumulatedFrames s = 0"
      and room: "int (length es) < INT_MAX"
      and quiet: "\<forall>k \<in> {1..length es}.
                \<not> fgt (accumulated (take k es)) (m_AverageTimeUpdateInterval s)"
      and loud: "fgt (accumulated (es @ [e])) (m_AverageTimeUpdateInterval s)"
  proof -
    have acc: "feed s es =
        Inr (s\<lparr>m_FrameTimeSum := foldl fadd (m_FrameTimeSum s) es,
                m_NumberOfAccumulatedFrames := m_NumberOfAccumulatedFrames s + int (length es)\<rparr>)"
      by (rule feed_accumulates) (use quiet room in \<open>simp_all add: z accumulated_def\<close>)
    let ?t = "s\<lparr>m_FrameTimeSum := accumulated es, m_NumberOfAccumulatedFrames := int (length es)\<rparr>"
    from acc have acc': "feed s es = Inr ?t"
      by (simp add: z accumulated_def)
    have "UpdateAverageFrameTime ?t e =
        Inr (?t\<lparr>m_AverageFrameTime :=
                  fdiv_int (fadd (m_FrameTimeSum ?t) e) (m_NumberOfAccumulatedFrames ?t + 1),
                m_FrameTimeSum := Finite 0, m_NumberOfAccumulatedFrames := 0\<rparr>)"
      by (rule UpdateAverageFrameTime_over) (use loud room in \<open>simp_all add: accumulated_def\<close>)
    then have "feed s (es @ [e]) =
        Inr (s\<lparr>m_AverageFrameTime :=
                  fdiv_int (accumulated (es @ [e])) (int (length (es @ [e]))),
                m_FrameTimeSum := Finite 0, m_NumberOfAccumulatedFrames := 0\<rparr>)"
      by (simp add: feed_snoc acc' accumulated_def add.commute)
    with acc' show ?thesis
      by simp
  qed
  from over under run show ?thesis
    by blast
qed

text \<open>C5, at the default interval: three frames of a quarter of a second.\<close>

theorem average_frame_time_update_witness:
  "feed (DeviceManager_new () :: (nat, unit) DeviceManager) [Finite (1 / 4), Finite (1 / 4)] =
     Inr ((DeviceManager_new ())\<lparr>m_FrameTimeSum := Finite (1 / 2), m_NumberOfAccumulatedFrames := 2\<rparr>)
   \<and> feed (DeviceManager_new () :: (nat, unit) DeviceManager)
        [Finite (1 / 4), Finite (1 / 4), Finite (1 / 4)] =
     Inr ((DeviceManager_new ())\<lparr>m_AverageFrameTime := Finite (1 / 4)\<rparr>)"
proof -
  let ?s = "DeviceManager_new () :: (nat, unit) DeviceManager"
  let ?es = "[Finite (1 / 4), Finite (1 / 4)]"
  have n: "0 \<le> m_NumberOfAccumulatedFrames ?s" "m_NumberOfAccumulatedFrames ?s < INT_MAX"
    by (simp_all add: DeviceManager_new_def INT_MAX_def)
  have z: "m_FrameTimeSum ?s = Finite 0 \<and> m_NumberOfAccumulatedFrames ?s = 0"
    by (simp add: DeviceManager_new_def)
  have room: "int (length ?es) < INT_MAX"
    by (simp add: INT_MAX_def)
  have a1: "accumulated [Finite (1 / 4)] = Finite (1 / 4)"
    and a2: "accumulated ?es = Finite (1 / 2)"
    and a3: "accumulated (?es @ [Finite (1 / 4)]) = Finite (3 / 4)"
    by (simp_all add: accumulated_def round_quarter round_half round_three_quarters)
  have quiet: "\<forall>k \<in> {1..length ?es}.
      \<not> fgt (accumulated (take k ?es)) (m_AverageTimeUpdateInterval ?s)"
  proof
    fix k :: nat assume "k \<in> {1..length ?es}"
    then have "k = 1 \<or> k = 2" by auto
    then show "\<not> fgt (accumulated (take k ?es)) (m_AverageTimeUpdateInterval ?s)"
      using a1 a2 by (auto simp: DeviceManager_new_def)
  qed
  have loud: "fgt (accumulated (?es @ [Finite (1 / 4)])) (m_AverageTimeUpdateInterval ?s)"
    unfolding a3 by (simp add: DeviceManager_new_def)
  have avg: "fdiv_int (accumulated (?es @ [Finite (1 / 4)])) (int (length (?es @ [Finite (1 / 4)])))
      = Finite (1 / 4)"
    unfolding a3 by (simp add: round_quarter)
  have "feed ?s ?es =
          Inr (?s\<lparr>m_FrameTimeSum := accumulated ?es,
                  m_NumberOfAccumulatedFrames := int (length ?es)\<rparr>)
        \<and> feed ?s (?es @ [Finite (1 / 4)]) =
          Inr (?s\<lparr>m_AverageFrameTime :=
                    fdiv_int (accumulated (?es @ [Finite (1 / 4)]))
                      (int (length (?es @ [Finite (1 / 4)]))),
                  m_FrameTimeSum := Finite 0, m_NumberOfAccumulatedFrames := 0\<rparr>)"
    using average_frame_time_update [OF n, of "Finite (1 / 4)" ?es] z room quiet loud
    by blast
  then show ?thesis
    unfolding avg a2 by (simp add: DeviceManager_new_def)
qed

text \<open>
  C5 as stated fails: at the default interval, after one frame of half a second the
  accumulated time is exactly the interval, so at least the interval, yet the average is
  not published and the accumulators are not reset.
\<close>

theorem average_at_interval_counterexample:
  "m_AverageTimeUpdateInterval (DeviceManager_new () :: (nat, unit) DeviceManager) = Finite (1 / 2)
   \<and> fadd (m_FrameTimeSum (DeviceManager_new () :: (nat, unit) DeviceManager)) (Finite (1 / 2))
       = Finite (1 / 2)
   \<and> UpdateAverageFrameTime (DeviceManager_new () :: (nat, unit) DeviceManager) (Finite (1 / 2)) =
       Inr ((DeviceManager_new ())\<lparr>m_FrameTimeSum := Finite (1 / 2),
              m_NumberOfAccumulatedFrames := 1\<rparr>)
   \<and> m_AverageFrameTime
        ((DeviceManager_new () :: (nat, unit) DeviceManager)\<lparr>m_FrameTimeSum := Finite (1 / 2),
              m_NumberOfAccumulatedFrames := 1\<rparr>) = Finite 0"
proof -
  let ?s = "DeviceManager_new () :: (nat, unit) DeviceManager"
  have sum: "fadd (m_FrameTimeSum ?s) (Finite (1 / 2)) = Finite (1 / 2)"
    by (simp add: DeviceManager_new_def round_half)
  have "UpdateAverageFrameTime ?s (Finite (1 / 2)) =
      Inr (?s\<lparr>m_FrameTimeSum := fadd (m_FrameTimeSum ?s) (Finite (1 / 2)),
              m_NumberOfAccumulatedFrames := m_NumberOfAccumulatedFrames ?s + 1\<rparr>)"
    by (rule UpdateAverageFrameTime_under)
       (simp_all add: sum, simp_all add: DeviceManager_new_def INT_MAX_def)
  then show ?thesis
    unfolding sum by (simp add: DeviceManager_new_def)
qed

section \<open>The tick and the message loop\<close>

text \<open>
  C6. If \<^verbatim>\<open>Present\<close> returns false in a tick, \<^verbatim>\<open>AnimateRenderPresent\<close> returns false,
  \<^verbatim>\<open>RunMessageLoop\<close> returns after that tick whatever turns the platform would still
  provide, and its last call is the idle wait on the device.
\<close>

theorem present_failure_exits_loop:
  assumes thru: "loop_through rp be pre (s\<lparr>m_PreviousFrameTimestamp := now\<rparr>) = Some (ev0, s1)"
    and live: "\<not> destroyRequested t"
    and polled: "process_events t s1 = (ev_p, s2)"
    and visible: "m_windowVisible s2"
    and tick: "AnimateRenderPresent rp be (clock t) s2 = Inr (ok, ev, s3)"
    and failed: "EvPresent False \<in> set ev"
  shows "\<not> ok
     \<and> RunMessageLoop rp be now (pre @ t # ts) s =
         Some (Inr (ev0 @ ev_p @ ev @ [EvWaitForIdle], s3))
     \<and> RunMessageLoop rp be now (pre @ t # ts) s = RunMessageLoop rp be now (pre @ [t]) s"
proof -
  from present_failed_iff [OF tick] failed have nok: "\<not> ok"
    by simp
  have one: "message_loop rp be (t # rest) s1 = Some (Inr (ev_p @ ev, s3))" for rest
    using live polled visible tick nok by simp
  have "RunMessageLoop rp be now (pre @ t # rest) s =
          Some (Inr (ev0 @ ev_p @ ev @ [EvWaitForIdle], s3))" for rest
    unfolding RunMessageLoop_def message_loop_append [OF thru] one
    by (simp add: prepend_def)
  with nok show ?thesis
    by simp
qed

text \<open>C6, with a backend whose present fails, after a turn in which the window was hidden.\<close>

theorem present_failure_exits_loop_witness:
  "map_option (map_sum id fst)
     (RunMessageLoop (passes_consuming (\<lambda>p. False)) (fixed_backend 1 False D3D11) 0
        [turn_hidden 1, turn_visible 2, turn_visible 3] running_manager) =
   Some (Inr [EvDisplayScaleChanged 1 1 1, EvAnimate 1 2, EvSetLatewarpOptions 1,
              EvBeginFrame True, EvRender 1 (Some (Framebuffer 0)), EvPresent False,
              EvWaitForIdle])"
proof -
  let ?rp = "passes_consuming (\<lambda>p :: nat. False)"
  let ?be = "fixed_backend 1 False D3D11"
  let ?s0 = "running_manager\<lparr>m_PreviousFrameTimestamp := 0\<rparr>"
  let ?s1 = "?s0\<lparr>m_windowVisible := False\<rparr>"
  let ?s2 = "?s1\<lparr>m_windowVisible := True\<rparr>"
  let ?ev = "[EvDisplayScaleChanged 1 1 1, EvAnimate 1 2, EvSetLatewarpOptions 1,
              EvBeginFrame True, EvRender 1 (Some (Framebuffer 0)), EvPresent False]"
  have thru: "loop_through ?rp ?be [turn_hidden 1] ?s0 = Some ([], ?s1)"
    by (simp add: turn_hidden_def)
  have live: "\<not> destroyRequested (turn_visible 2)"
    and polled: "process_events (turn_visible 2) ?s1 = ([], ?s2)"
    and vis: "m_windowVisible ?s2"
    by (simp_all add: turn_visible_def)
  have act: "window_active ?rp ?s2"
    by (simp add: window_active_def running_manager_simps)
  have bf: "BeginFrame ?be (m_DeviceParams ?s2) (backend ?s2) = (True, ())"
    and pr: "Present ?be (m_DeviceParams ?s2) () = (False, ())"
    by (simp_all add: fixed_backend_simps)
  have rn: "Render ?be (?s2\<lparr>backend := ()\<rparr>) = Inr [EvRender 1 (Some (Framebuffer 0))]"
    by (simp add: Render_def vector_at_def fixed_backend_simps running_manager_simps)
  have go: "m_FrameIndex ?s2 \<noteq> 0 \<or> \<not> m_SkipRenderOnFirstFrame ?s2"
    by (simp add: running_manager_simps)
  have tick: "AnimateRenderPresent ?rp ?be (clock (turn_visible 2)) ?s2 =
      Inr (False, ?ev, (scale_checked ?s2)\<lparr>backend := ()\<rparr>)"
    using ARP_rendered [OF act go bf rn pr, of 2]
    by (simp add: turn_visible_def animate_events_def
        frame_events_def call_hook_def Animate_def DisplayScaleChanged_def running_manager_simps
        PipelineCallbacks_default_def)
  have failed: "EvPresent False \<in> set ?ev"
    by simp
  from present_failure_exits_loop [OF thru live polled vis tick failed,
      of "[turn_visible 3]"]
  show ?thesis
    by simp
qed

text \<open>
  C7. With \<^verbatim>\<open>m_SkipRenderOnFirstFrame\<close> set, the tick at frame index 0 animates and makes
  no call of the render stage (\<^verbatim>\<open>BeginFrame\<close>, \<^verbatim>\<open>Render\<close>, \<^verbatim>\<open>Present\<close> and their
  hooks); on a later tick the hooks around render and present are passed the frame index
  minus one, which does not wrap, and the hooks around animate the frame index itself.
  Without the mode every hook is passed the frame index, and an active tick, the first
  included, begins a frame and, if that succeeds, renders and presents.
\<close>

theorem skip_render_on_first_frame:
  assumes run: "AnimateRenderPresent rp be curTime s = Inr (ok, ev, s')"
  shows "(m_SkipRenderOnFirstFrame s \<and> m_FrameIndex s = 0 \<longrightarrow>
            (\<forall>e \<in> set ev. \<not> render_stage e) \<and> ok \<and> m_FrameIndex s' = 1
            \<and> (window_active rp s \<longrightarrow>
                 (\<forall>p \<in> set (m_vRenderPasses s).
                    EvAnimate p (curTime - m_PreviousFrameTimestamp s) \<in> set ev)))
     \<and> (\<forall>h i. EvHook h i \<in> set ev \<longrightarrow>
            i = (if m_SkipRenderOnFirstFrame s \<and> render_hook h then m_FrameIndex s - 1
                 else m_FrameIndex s))
     \<and> (\<forall>h i. m_SkipRenderOnFirstFrame s \<and> render_hook h \<and> EvHook h i \<in> set ev \<longrightarrow>
            m_FrameIndex s \<noteq> 0 \<and> unat i + 1 = unat (m_FrameIndex s))
     \<and> (window_active rp s \<longrightarrow>
            (\<forall>h. (h = BeforeAnimate \<or> h = AfterAnimate) \<and> registered (m_callbacks s) h \<longrightarrow>
                  EvHook h (m_FrameIndex s) \<in> set ev))
     \<and> (window_active rp s \<and> (m_FrameIndex s \<noteq> 0 \<or> \<not> m_SkipRenderOnFirstFrame s) \<longrightarrow>
            EvBeginFrame (fst (BeginFrame be (m_DeviceParams s) (backend s))) \<in> set ev
            \<and> (fst (BeginFrame be (m_DeviceParams s) (backend s)) \<longrightarrow>
                 (\<forall>p \<in> set (m_vRenderPasses s). \<exists>fb. EvRender p fb \<in> set ev)
                 \<and> EvPresent ok \<in> set ev
                 \<and> (\<forall>h. render_hook h \<and> registered (m_callbacks s) h \<longrightarrow>
                       EvHook h (if m_SkipRenderOnFirstFrame s then m_FrameIndex s - 1
                                 else m_FrameIndex s) \<in> set ev)))"
  (is "?first \<and> ?index \<and> ?nowrap \<and> ?animate \<and> ?render")
proof -
  let ?t = "curTime - m_PreviousFrameTimestamp s"
  have first: ?first
    using run
  proof (cases rule: ARP_cases)
    case inactive
    then show ?thesis by simp
  next
    case skipped
    then show ?thesis
      by (auto dest: animate_events_not_render_stage simp: in_animate_events in_Animate)
  next
    case not_begun
    then show ?thesis by auto
  next
    case (rendered b2 ev_render)
    then show ?thesis by auto
  qed
  have index: ?index
    using run
  proof (cases rule: ARP_cases)
    case inactive
    then show ?thesis by simp
  next
    case skipped
    then show ?thesis
      by (auto dest: hook_in_animate_events)
  next
    case not_begun
    then show ?thesis
      by (auto dest: hook_in_animate_events)
  next
    case (rendered b2 ev_render)
    then show ?thesis
      by (auto dest: hook_in_animate_events hook_in_frame_events [OF rendered(4)] split: if_splits)
  qed
  have nowrap: ?nowrap
    using run
  proof (cases rule: ARP_cases)
    case inactive
    then show ?thesis by simp
  next
    case skipped
    then show ?thesis
      by (auto dest: hook_in_animate_events)
  next
    case not_begun
    then show ?thesis
      by (auto dest: hook_in_animate_events)
  next
    case (rendered b2 ev_render)
    then show ?thesis
      by (auto dest: hook_in_animate_events hook_in_frame_events [OF rendered(4)]
          simp: unat_pred split: if_splits)
  qed
  have animate: ?animate
    using run
  proof (cases rule: ARP_cases)
    case inactive
    then show ?thesis by simp
  next
    case skipped
    then show ?thesis
      by (auto simp: in_animate_events)
  next
    case not_begun
    then show ?thesis
      by (auto simp: in_animate_events)
  next
    case (rendered b2 ev_render)
    then show ?thesis
      by (auto simp: in_animate_events)
  qed
  have render: ?render
    using run
  proof (cases rule: ARP_cases)
    case inactive
    then show ?thesis by simp
  next
    case skipped
    then show ?thesis by simp
  next
    case not_begun
    then show ?thesis by simp
  next
    case (rendered b2 ev_render)
    from Render_events [OF rendered(4)] obtain fb
      where evr: "ev_render = map (\<lambda>p. EvRender p fb) (m_vRenderPasses s)"
      by auto
    have hooks: "EvHook h (if m_SkipRenderOnFirstFrame s then m_FrameIndex s - 1
                                 else m_FrameIndex s) \<in> set (frame_events s ev_render ok)"
      if "render_hook h" "registered (m_callbacks s) h" for h
      using that by (cases h) (simp_all add: in_frame_events)
    have rs: "\<exists>fb. EvRender p fb \<in> set (frame_events s ev_render ok)"
      if "p \<in> set (m_vRenderPasses s)" for p
      using that by (auto simp: in_frame_events evr)
    show ?thesis
      using rendered(1-3) hooks rs
      by (simp add: rendered(6) in_frame_events) blast
  qed
  from first index nowrap animate render show ?thesis
    by (intro conjI)
qed

text \<open>C7, with the mode set and all hooks registered: the ticks at frame index 0 and 1.\<close>

theorem skip_render_on_first_frame_witness:
  "(case AnimateRenderPresent (passes_consuming (\<lambda>p. False)) (fixed_backend 1 True D3D11) 1
           (running_manager\<lparr>m_SkipRenderOnFirstFrame := True, m_callbacks := all_hooks\<rparr>) of
      Inl e \<Rightarrow> False
    | Inr (ok, ev, s') \<Rightarrow>
        ok \<and> m_FrameIndex s' = 1 \<and> EvAnimate 1 1 \<in> set ev \<and> EvHook BeforeAnimate 0 \<in> set ev
        \<and> list_all (\<lambda>e. \<not> render_stage e) ev)
   \<and> (case AnimateRenderPresent (passes_consuming (\<lambda>p. False)) (fixed_backend 1 True D3D11) 2
           (running_manager\<lparr>m_SkipRenderOnFirstFrame := True, m_callbacks := all_hooks,
              m_FrameIndex := 1\<rparr>) of
      Inl e \<Rightarrow> False
    | Inr (ok, ev, s') \<Rightarrow>
        EvHook AfterAnimate 1 \<in> set ev \<and> EvHook BeforeRender 0 \<in> set ev
        \<and> EvHook AfterPresent 0 \<in> set ev \<and> EvPresent ok \<in> set ev)"
proof -
  let ?rp = "passes_consuming (\<lambda>p :: nat. False)"
  let ?be = "fixed_backend 1 True D3D11"
  let ?a = "running_manager\<lparr>m_SkipRenderOnFirstFrame := True, m_callbacks := all_hooks\<rparr>"
  let ?b = "running_manager\<lparr>m_SkipRenderOnFirstFrame := True, m_callbacks := all_hooks,
              m_FrameIndex := 1\<rparr>"
  have act_a: "window_active ?rp ?a" and act_b: "window_active ?rp ?b"
    by (simp_all add: window_active_def running_manager_simps)
  have "AnimateRenderPresent ?rp ?be 1 ?a =
      finish_tick 1 (1 - m_PreviousFrameTimestamp ?a)
        (animate_events ?a (1 - m_PreviousFrameTimestamp ?a)) (scale_checked ?a)"
    by (rule ARP_skipped [OF act_a]) (simp_all add: running_manager_simps)
  moreover have "m_NumberOfAccumulatedFrames (scale_checked ?a) < INT_MAX"
    by (simp add: scale_checked_def running_manager_def DeviceManager_new_def INT_MAX_def)
  ultimately have "\<exists>x. AnimateRenderPresent ?rp ?be 1 ?a = Inr x"
    using finish_tick_returns by metis
  then obtain ok_a ev_a s_a where run_a: "AnimateRenderPresent ?rp ?be 1 ?a = Inr (ok_a, ev_a, s_a)"
    by (metis prod_cases3)
  have bf: "BeginFrame ?be (m_DeviceParams ?b) (backend ?b) = (True, ())"
    and pr: "Present ?be (m_DeviceParams ?b) () = (True, ())"
    by (simp_all add: fixed_backend_simps)
  have rn: "Render ?be (?b\<lparr>backend := ()\<rparr>) = Inr [EvRender 1 (Some (Framebuffer 0))]"
    by (simp add: Render_def vector_at_def fixed_backend_simps running_manager_simps)
  have go: "m_FrameIndex ?b \<noteq> 0 \<or> \<not> m_SkipRenderOnFirstFrame ?b"
    by simp
  have "m_NumberOfAccumulatedFrames ((scale_checked ?b)\<lparr>backend := ()\<rparr>) < INT_MAX"
    by (simp add: scale_checked_def running_manager_def DeviceManager_new_def INT_MAX_def)
  then have "\<exists>x. AnimateRenderPresent ?rp ?be 2 ?b = Inr x"
    by (subst ARP_rendered [OF act_b go bf rn pr])
       (simp only: if_False not_True_eq_False, rule finish_tick_returns)
  then obtain ok_b ev_b s_b where run_b: "AnimateRenderPresent ?rp ?be 2 ?b = Inr (ok_b, ev_b, s_b)"
    by (metis prod_cases3)
  have first: "ok_a \<and> m_FrameIndex s_a = 1 \<and> EvAnimate 1 1 \<in> set ev_a
      \<and> EvHook BeforeAnimate 0 \<in> set ev_a \<and> list_all (\<lambda>e. \<not> render_stage e) ev_a"
    using skip_render_on_first_frame [OF run_a] act_a
    by (simp add: running_manager_simps all_hooks_def list_all_iff)
  have later: "EvHook AfterAnimate 1 \<in> set ev_b \<and> EvHook BeforeRender 0 \<in> set ev_b
      \<and> EvHook AfterPresent 0 \<in> set ev_b \<and> EvPresent ok_b \<in> set ev_b"
    using skip_render_on_first_frame [OF run_b] act_b
    by (simp add: running_manager_simps all_hooks_def fixed_backend_simps)
  from first later show ?thesis
    by (simp add: run_a run_b)
qed

section \<open>The first resize\<close>

text \<open>
  C8. When \<^verbatim>\<open>CreateWindowDeviceAndSwapChain\<close> succeeds for a window of non-zero size, the
  window is visible, every pass registered at that time has received
  \<^verbatim>\<open>BackBufferResized\<close> with the window's width and height and the configured sample
  count, and no pass has been rendered yet: the stored size was set to zero before
  \<^verbatim>\<open>UpdateWindowSize\<close>, so the resize is due.
\<close>

theorem first_resize_after_creation:
  assumes created: "CreateWindowDeviceAndSwapChain pf be s params = (True, ev, s')"
    and win: "app_window pf = Some window"
    and w: "ANativeWindow_getWidth pf window = width"
    and h: "ANativeWindow_getHeight pf window = height"
    and nz: "width \<noteq> 0" "height \<noteq> 0"
  shows "m_windowVisible s'
     \<and> (\<forall>p \<in> set (m_vRenderPasses s).
           EvBackBufferResized p width height (swapChainSampleCount params) \<in> set ev)
     \<and> (\<forall>e \<in> set ev. \<forall>p fb. e \<noteq> EvRender p fb)
     \<and> m_vRenderPasses s' = m_vRenderPasses s
     \<and> backBufferWidth (m_DeviceParams s') = width
     \<and> backBufferHeight (m_DeviceParams s') = height
     \<and> m_SwapChainFramebuffers s' = swapchain_framebuffers be (backend s')"
proof -
  let ?s1 = "s\<lparr>m_DeviceParams := params\<lparr>headlessDevice := False\<rparr>,
               m_RequestedVSync := vsyncEnabled params\<rparr>"
  obtain inst_ok s2 where inst: "CreateInstance be ?s1 (m_DeviceParams ?s1) = (inst_ok, s2)"
    by (cases "CreateInstance be ?s1 (m_DeviceParams ?s1)")
  note keep = CreateInstance_keeps [OF inst]
  let ?s3 = "s2\<lparr>m_DeviceParams := (m_DeviceParams s2)
                 \<lparr>backBufferWidth := width, backBufferHeight := height\<rparr>,
               m_NativeWindow := Some window,
               m_DPIScaleFactorX := density pf, m_DPIScaleFactorY := density pf\<rparr>"
  obtain device b4 where dev: "CreateDevice be (m_DeviceParams ?s3) (backend ?s3) = (device, b4)"
    by (cases "CreateDevice be (m_DeviceParams ?s3) (backend ?s3)")
  let ?s4 = "?s3\<lparr>backend := b4\<rparr>"
  obtain swapChain b5 where swp: "CreateSwapChain be (m_DeviceParams ?s4) (backend ?s4) = (swapChain, b5)"
    by (cases "CreateSwapChain be (m_DeviceParams ?s4) (backend ?s4)")
  let ?s6 = "?s4\<lparr>backend := b5, m_windowVisible := True,
                m_DeviceParams := (m_DeviceParams ?s4)\<lparr>backBufferWidth := 0, backBufferHeight := 0\<rparr>\<rparr>"
  have run: "(ev, s') = UpdateWindowSize pf be ?s6"
    using created inst dev swp
    by (simp add: CreateWindowDeviceAndSwapChain_def Let_def win w h split: if_splits prod.splits)
  have win6: "m_NativeWindow ?s6 = Some window"
    by simp
  have req: "resize_requested be ?s6 width height"
    by (rule resize_requested_initial) (simp_all add: nz)
  have sc: "swapChainSampleCount (m_DeviceParams ?s6) = swapChainSampleCount params"
    and ps: "m_vRenderPasses ?s6 = m_vRenderPasses s"
    by (simp_all add: keep)
  have ev_eq: "ev = fst (UpdateWindowSize pf be ?s6)"
    using arg_cong [OF run, of fst] by (simp only: fst_conv)
  have s_eq: "s' = snd (UpdateWindowSize pf be ?s6)"
    using arg_cong [OF run, of snd] by (simp only: snd_conv)
  show ?thesis
    unfolding ev_eq s_eq UpdateWindowSize_resized [OF win6 w h nz req] fst_conv snd_conv
    by (auto simp: keep)
qed

text \<open>C8, at a window of 1280 by 720 with three back buffers and two passes.\<close>

theorem first_resize_after_creation_witness:
  "fst (CreateWindowDeviceAndSwapChain (window_of_size 1280 720) (fixed_backend 3 True D3D11)
          ((DeviceManager_new ())\<lparr>m_vRenderPasses := [1, 2 :: nat]\<rparr>)
          DeviceCreationParameters_default)
   \<and> EvBackBufferResized 1 1280 720 1 \<in> set (fst (snd
        (CreateWindowDeviceAndSwapChain (window_of_size 1280 720) (fixed_backend 3 True D3D11)
          ((DeviceManager_new ())\<lparr>m_vRenderPasses := [1, 2 :: nat]\<rparr>)
          DeviceCreationParameters_default)))
   \<and> EvBackBufferResized 2 1280 720 1 \<in> set (fst (snd
        (CreateWindowDeviceAndSwapChain (window_of_size 1280 720) (fixed_backend 3 True D3D11)
          ((DeviceManager_new ())\<lparr>m_vRenderPasses := [1, 2 :: nat]\<rparr>)
          DeviceCreationParameters_default)))
   \<and> m_SwapChainFramebuffers (snd (snd
        (CreateWindowDeviceAndSwapChain (window_of_size 1280 720) (fixed_backend 3 True D3D11)
          ((DeviceManager_new ())\<lparr>m_vRenderPasses := [1, 2 :: nat]\<rparr>)
          DeviceCreationParameters_default)))
       = [Some (Framebuffer 0), Some (Framebuffer 1), Some (Framebuffer 2)]"
proof -
  let ?pf = "window_of_size 1280 720"
  let ?be = "fixed_backend 3 True D3D11"
  let ?s = "(DeviceManager_new ())\<lparr>m_vRenderPasses := [1, 2 :: nat]\<rparr>"
  let ?r = "CreateWindowDeviceAndSwapChain ?pf ?be ?s DeviceCreationParameters_default"
  have ok: "fst ?r"
    by (simp add: CreateWindowDeviceAndSwapChain_def CreateInstance_def Let_def
        fixed_backend_def window_of_size_def DeviceManager_new_def split: prod.splits)
  then have created: "?r = (True, fst (snd ?r), snd (snd ?r))"
    by (cases ?r) simp
  have win: "app_window ?pf = Some 1"
    and w: "ANativeWindow_getWidth ?pf 1 = 1280" and h: "ANativeWindow_getHeight ?pf 1 = 720"
    by (simp_all add: window_of_size_def)
  have nz: "(1280 :: uint32_t) \<noteq> 0" "(720 :: uint32_t) \<noteq> 0"
    by simp_all
  have fbs: "swapchain_framebuffers ?be b =
      [Some (Framebuffer 0), Some (Framebuffer 1), Some (Framebuffer 2)]" for b
    by (simp add: swapchain_framebuffers_def fixed_backend_def upt_conv_Cons)
  have sc: "swapChainSampleCount DeviceCreationParameters_default = 1"
    by (simp add: DeviceCreationParameters_default_def)
  from first_resize_after_creation [OF created win w h nz] ok show ?thesis
    by (simp add: fbs sc)
qed

end
